theory Spec2Isabelle
  imports Complex_Main
begin

section \<open>Python values\<close>

text \<open>
  A Python \<open>str\<close> is a sequence of Unicode code points; it is modelled as the list of
  its code points. \<open>py\<close> embeds an ASCII literal.
\<close>

type_synonym pystr = "nat list"

definition py :: "string \<Rightarrow> pystr" where
  "py s = map of_char s"

text \<open>The characters removed by \<open>str.strip()\<close> (those with \<open>str.isspace()\<close>).\<close>

definition is_space :: "nat \<Rightarrow> bool" where
  "is_space c \<longleftrightarrow>
     (9 \<le> c \<and> c \<le> 13) \<or> (28 \<le> c \<and> c \<le> 32) \<or> c = 133 \<or> c = 160 \<or> c = 5760 \<or>
     (8192 \<le> c \<and> c \<le> 8202) \<or> c = 8232 \<or> c = 8233 \<or> c = 8239 \<or> c = 8287 \<or> c = 12288"

definition py_strip :: "pystr \<Rightarrow> pystr" where
  "py_strip s = rev (dropWhile is_space (rev (dropWhile is_space s)))"

fun starts_with :: "pystr \<Rightarrow> pystr \<Rightarrow> bool" where
  "starts_with [] s = True"
| "starts_with (p # ps) [] = False"
| "starts_with (p # ps) (c # cs) = (p = c \<and> starts_with ps cs)"

text \<open>\<open>py_in n s\<close> is Python's \<open>n in s\<close> on strings: \<open>n\<close> occurs in \<open>s\<close> as a substring.\<close>

fun py_in :: "pystr \<Rightarrow> pystr \<Rightarrow> bool" where
  "py_in n [] = (n = [])"
| "py_in n (c # cs) = (starts_with n (c # cs) \<or> py_in n cs)"

text \<open>Truthiness of an attribute holding \<open>None\<close> or a \<open>str\<close>.\<close>

fun truthy :: "pystr option \<Rightarrow> bool" where
  "truthy None = False"
| "truthy (Some s) = (s \<noteq> [])"

text \<open>How an f-string renders an attribute holding \<open>None\<close> or a \<open>str\<close>.\<close>

fun fmt :: "pystr option \<Rightarrow> pystr" where
  "fmt None = py ''None''"
| "fmt (Some s) = s"

section \<open>The automation object\<close>

text \<open>
  A spreadsheet cell as pandas delivers it: \<open>None\<close>, NaN (an empty cell), a number or a
  string.
\<close>

datatype cell = CNone | CNaN | CNum rat | CStr pystr

datatype column = ServiceItem | Description | Quantity | UnitPrice | TotalPrice

text \<open>One row of \<open>services_data\<close>; a column the sheet does not have is absent.\<close>

type_synonym service = "column \<rightharpoonup> cell"

text \<open>The fields of \<open>StreamlitAutomation\<close> that the pipeline reads and writes.\<close>

record automation =
  paused :: bool
  working_excel_path :: "pystr option"
  current_sheet :: "pystr option"
  wo_number :: "pystr option"
  wo_description :: "pystr option"
  excel_original_description :: "pystr option"
  bill_batch :: "pystr option"
  bill_status :: "pystr option"
  reviewed_by :: "pystr option"
  services_data :: "service list option"

section \<open>Writing back to Excel: \<open>update_excel_file\<close>\<close>

datatype cellref = B2 | B3 | B4 | B5 | B6

text \<open>
  An openpyxl workbook: the sheet names, the index of the active sheet and the header
  cells of every sheet. \<open>wb.active\<close> is \<open>None\<close> when the index is out of range.
\<close>

record workbook =
  sheetnames :: "pystr list"
  active_index :: nat
  cells :: "pystr \<Rightarrow> cellref \<Rightarrow> pystr option"

text \<open>
  The files on disk: \<open>load_workbook\<close> raises on a path that is not in \<open>files\<close>,
  \<open>wb.save\<close> raises on a path in \<open>locked\<close>.
\<close>

record filesys =
  files :: "pystr \<rightharpoonup> workbook"
  locked :: "pystr set"

definition target_sheet :: "automation \<Rightarrow> workbook \<Rightarrow> pystr option" where
  "target_sheet a wb =
     (case current_sheet a of
        Some s \<Rightarrow> if s \<in> set (sheetnames wb) then Some s
                  else if active_index wb < length (sheetnames wb)
                       then Some (sheetnames wb ! active_index wb) else None
      | None \<Rightarrow> if active_index wb < length (sheetnames wb)
                then Some (sheetnames wb ! active_index wb) else None)"

definition set_cell :: "pystr \<Rightarrow> cellref \<Rightarrow> pystr \<Rightarrow> workbook \<Rightarrow> workbook" where
  "set_cell ws r v wb = wb\<lparr>cells := (cells wb)(ws := (cells wb ws)(r \<mapsto> v))\<rparr>"

definition set_if :: "pystr \<Rightarrow> cellref \<Rightarrow> pystr option \<Rightarrow> workbook \<Rightarrow> workbook" where
  "set_if ws r v wb = (if truthy v then set_cell ws r (the v) wb else wb)"

definition CREATED :: pystr where
  "CREATED = py ''CREATED''"

text \<open>The header updates B2 to B6 of \<open>update_excel_file\<close>, in the source's order.\<close>

definition write_header :: "automation \<Rightarrow> pystr \<Rightarrow> workbook \<Rightarrow> workbook" where
  "write_header a ws wb =
     (let wb1 = set_if ws B2 (wo_number a) wb;
          wb2 = set_if ws B3 (wo_description a) wb1;
          wb3 = set_if ws B4 (bill_batch a) wb2;
          wb4 = (if truthy (bill_status a) then set_cell ws B5 (the (bill_status a)) wb3
                 else set_cell ws B5 CREATED wb3)
      in set_if ws B6 (reviewed_by a) wb4)"

text \<open>
  \<open>update_excel_file\<close> returns \<open>False\<close> without touching the file when there is no
  working path, and when loading, assigning or saving raises.
\<close>

definition update_excel_file :: "automation \<Rightarrow> filesys \<Rightarrow> bool \<times> filesys" where
  "update_excel_file a fs =
     (if \<not> truthy (working_excel_path a) then (False, fs)
      else let p = the (working_excel_path a) in
        case files fs p of
          None \<Rightarrow> (False, fs)
        | Some wb \<Rightarrow>
            (case target_sheet a wb of
               None \<Rightarrow> (False, fs)
             | Some ws \<Rightarrow>
                 if p \<in> locked fs then (False, fs)
                 else (True, fs\<lparr>files := (files fs)(p \<mapsto> write_header a ws wb)\<rparr>)))"

section \<open>The bill name of \<open>create_customer_bill\<close>\<close>

datatype month = Jan | Feb | Mar | Apr | May | Jun | Jul | Aug | Sep | Oct | Nov | Dec

text \<open>\<open>strftime("%b").upper()\<close> in the C locale.\<close>

fun month_abbr :: "month \<Rightarrow> pystr" where
  "month_abbr Jan = py ''JAN''"
| "month_abbr Feb = py ''FEB''"
| "month_abbr Mar = py ''MAR''"
| "month_abbr Apr = py ''APR''"
| "month_abbr May = py ''MAY''"
| "month_abbr Jun = py ''JUN''"
| "month_abbr Jul = py ''JUL''"
| "month_abbr Aug = py ''AUG''"
| "month_abbr Sep = py ''SEP''"
| "month_abbr Oct = py ''OCT''"
| "month_abbr Nov = py ''NOV''"
| "month_abbr Dec = py ''DEC''"

text \<open>\<open>strftime("%y")\<close>: the year without century, two digits.\<close>

definition year_short :: "nat \<Rightarrow> pystr" where
  "year_short y = [48 + (y mod 100) div 10, 48 + y mod 10]"

definition placeholder_en :: pystr where
  "placeholder_en = py ''To be stored''"

definition placeholder_ar :: pystr where
  "placeholder_ar = [1587, 1610, 1578, 1605, 32, 1575, 1604, 1578, 1582, 1586, 1610, 1606]"

text \<open>The condition under which the live description is not used for the bill name.\<close>

definition unusable_description :: "pystr option \<Rightarrow> bool" where
  "unusable_description d =
     (\<not> truthy d \<or> py_strip (the d) = [] \<or> py_in placeholder_en (the d)
      \<or> py_in placeholder_ar (the d))"

definition description_for_bill :: "automation \<Rightarrow> pystr" where
  "description_for_bill a =
     (if unusable_description (wo_description a)
      then (if truthy (excel_original_description a) then the (excel_original_description a)
            else py ''WO-'' @ fmt (wo_number a))
      else the (wo_description a))"

definition bill_name :: "automation \<Rightarrow> month \<Rightarrow> nat \<Rightarrow> pystr" where
  "bill_name a m y =
     description_for_bill a @ py ''-'' @ fmt (wo_number a) @ py ''-M'' @ month_abbr m
       @ year_short y"

text \<open>
  An exception leaving a stage. \<open>PlaywrightError\<close> stands for any error the browser
  library raises (a timeout, a detached element).
\<close>

datatype error =
    PlaywrightError
  | NoSelectAction | NoCreateBillOption | BatchFieldEmpty | BatchFieldMissing
  | NoBillDescriptionInput | NoBillOkButton
  | RouteClickFailed nat | RouteOkFailed nat
  | NoSaveButton | KeyError | SearchFailed
  | NoLoginForm | LoginFailed pystr

text \<open>What a stage does to the external application, and the log entries the claims name.\<close>

text \<open>The outcome of a \<open>page.evaluate\<close> call: the value of the script, or an exception.\<close>

datatype eval_result = Returned bool | Raised

datatype event =
    FillBillName pystr
  | AddSingleService nat "column \<Rightarrow> cell" bool
  | LogSkipZeroQuantity nat
  | LogSkipEmptyItem nat
  | LogStopWhileAdding
  | LogNoServices
  | RouteToComp
  | SetPrice pystr pystr cell eval_result
  | SetZeroPrice pystr pystr eval_result
  | SaveBill

text \<open>
  What the browser shows while \<open>create_customer_bill\<close> runs: the visibility of each
  control the function asks for, and the values it reads. \<open>create_bill_visible k\<close> is
  the answer at attempt \<open>k\<close> of the loop over \<open>range(max_attempts)\<close>.
\<close>

record bill_page =
  bill_page_loads :: bool
  action_input_visible :: bool
  dropdown_visible :: bool
  create_bill_visible :: "nat \<Rightarrow> bool"
  batch_visible :: bool
  batch_value :: pystr
  batch_js_value :: "pystr option"
  desc_input_visible :: bool
  ok_visible :: bool
  alt_ok_visible :: bool
  bill_saved_loads :: bool

text \<open>Reading the bill batch: \<open>Inl\<close> the exception raised, \<open>Inr\<close> the new automation object.\<close>

definition read_bill_batch :: "bill_page \<Rightarrow> automation \<Rightarrow> error + automation" where
  "read_bill_batch bp a =
     (if batch_visible bp then
        (if batch_value bp \<noteq> [] \<and> py_strip (batch_value bp) \<noteq> []
         then Inr (a\<lparr>bill_batch := Some (py_strip (batch_value bp))\<rparr>)
         else if truthy (batch_js_value bp)
              then Inr (a\<lparr>bill_batch := Some (py_strip (the (batch_js_value bp)))\<rparr>)
              else Inl BatchFieldEmpty)
      else Inl BatchFieldMissing)"

text \<open>
  \<open>create_customer_bill\<close>: the exception that leaves it (if any), the automation object
  as it is then, and the events so far. Every handler of the function logs and
  re-raises; the current date is the month \<open>m\<close> of the year \<open>y\<close>.
\<close>

definition create_customer_bill ::
  "bill_page \<Rightarrow> month \<Rightarrow> nat \<Rightarrow> automation \<Rightarrow> error option \<times> automation \<times> event list" where
  "create_customer_bill bp m y a =
     (if \<not> bill_page_loads bp then (Some PlaywrightError, a, [])
      else if \<not> action_input_visible bp \<and> \<not> dropdown_visible bp then (Some NoSelectAction, a, [])
      else if \<not> (\<exists>k < 5. create_bill_visible bp k) then (Some NoCreateBillOption, a, [])
      else case read_bill_batch bp a of
        Inl e \<Rightarrow> (Some e, a, [])
      | Inr a' \<Rightarrow>
          if \<not> desc_input_visible bp then (Some NoBillDescriptionInput, a', [])
          else if \<not> ok_visible bp \<and> \<not> alt_ok_visible bp
               then (Some NoBillOkButton, a', [FillBillName (bill_name a' m y)])
          else if \<not> bill_saved_loads bp
               then (Some PlaywrightError, a', [FillBillName (bill_name a' m y)])
          else (None, a', [FillBillName (bill_name a' m y)]))"

section \<open>Pause and stop\<close>

text \<open>
  \<open>wait_if_paused\<close> sleeps while the object's own \<open>paused\<close> attribute is set and the stop
  event is not. \<open>stop k\<close> is what \<open>stop_event.is_set()\<close> answers at the \<open>k\<close>-th poll; the
  result is the poll at which the loop ends, \<open>None\<close> when it is still sleeping after
  \<open>fuel\<close> sleeps.
\<close>

fun wait_if_paused :: "nat \<Rightarrow> automation \<Rightarrow> (nat \<Rightarrow> bool) \<Rightarrow> nat \<Rightarrow> nat option" where
  "wait_if_paused 0 a stop k = (if paused a \<and> \<not> stop k then None else Some k)"
| "wait_if_paused (Suc fuel) a stop k =
     (if paused a \<and> \<not> stop k then wait_if_paused fuel a stop (Suc k) else Some k)"

definition check_pause :: "nat \<Rightarrow> automation \<Rightarrow> (nat \<Rightarrow> bool) \<Rightarrow> nat \<Rightarrow> nat option" where
  "check_pause fuel a stop k = (if paused a then wait_if_paused fuel a stop k else Some k)"

text \<open>The part of \<open>st.session_state\<close> that the Pause button toggles.\<close>

record session =
  ss_paused :: bool
  ss_is_running :: bool

definition on_pause :: "session \<Rightarrow> session" where
  "on_pause ss = ss\<lparr>ss_paused := \<not> ss_paused ss\<rparr>"

text \<open>The parameters \<open>on_start\<close> captures for the worker thread.\<close>

record params =
  excel_path :: "pystr option"
  url :: pystr
  selected_steps :: "pystr list"
  start_at :: pystr

text \<open>\<open>StreamlitAutomation.__init__\<close>, for the arguments that reach the modelled fields.\<close>

definition init_automation :: "bool \<Rightarrow> pystr option \<Rightarrow> pystr option \<Rightarrow> automation" where
  "init_automation p ep wp =
     \<lparr>paused = p, working_excel_path = (if truthy wp then wp else ep),
      current_sheet = None, wo_number = None, wo_description = None,
      excel_original_description = None, bill_batch = None, bill_status = None,
      reviewed_by = None, services_data = None\<rparr>"

text \<open>The object \<open>run_automation\<close> creates: \<open>paused=False\<close>, both paths the Excel path.\<close>

definition new_automation :: "params \<Rightarrow> automation" where
  "new_automation p = init_automation False (excel_path p) (excel_path p)"

section \<open>Login\<close>

text \<open>\<open>str.lower()\<close> on the ASCII letters, which is all a URL has.\<close>

definition ascii_lower :: "pystr \<Rightarrow> pystr" where
  "ascii_lower s = map (\<lambda>c. if 65 \<le> c \<and> c \<le> 90 then c + 32 else c) s"

text \<open>
  What one attempt of \<open>verify_login_success\<close> sees: the URL, the text of the page body
  (\<open>None\<close> when \<open>page.evaluate\<close> raises) and the URL read again.
\<close>

record verify_obs =
  url_before :: pystr
  body_text :: "pystr option"
  url_after :: pystr

definition success_indicators :: "pystr list" where
  "success_indicators = [py ''Welcome'', py ''Logout'', py ''Sign Out'', py ''Main Menu'']"

definition verify_attempt :: "verify_obs \<Rightarrow> bool" where
  "verify_attempt v =
     (if \<not> py_in (py ''login'') (ascii_lower (url_before v)) then True
      else case body_text v of
             None \<Rightarrow> False
           | Some t \<Rightarrow>
               if \<exists>m \<in> set success_indicators. py_in m t then True
               else \<not> py_in (py ''login'') (ascii_lower (url_after v)))"

text \<open>\<open>max_attempts = 2\<close>; an attempt that raises counts as failed.\<close>

definition verify_login_success :: "(nat \<Rightarrow> verify_obs) \<Rightarrow> bool" where
  "verify_login_success obs = (verify_attempt (obs 0) \<or> verify_attempt (obs 1))"

text \<open>
  One pass of the login loop: whether entering the credentials, clicking and waiting get
  past their handlers, what the verification sees, the URL read for the failure check
  and the text of the error element (empty when there is none or reading it raises).
\<close>

record login_try =
  entry_ok :: bool
  verification :: "nat \<Rightarrow> verify_obs"
  url_at_check :: pystr
  possible_error :: pystr

record login_page =
  login_page_loads :: bool
  form_present :: "nat \<Rightarrow> bool"
  tries :: "nat \<Rightarrow> login_try"

text \<open>
  The loop over \<open>range(max_login_attempts)\<close>, at attempt \<open>k\<close> with \<open>n\<close> attempts left.
  The result is the exception raised, and whether the status "Login successful" was set.
  After the last attempt the loop ends and the function returns.
\<close>

fun login_attempts :: "pystr \<Rightarrow> (nat \<Rightarrow> login_try) \<Rightarrow> nat \<Rightarrow> nat \<Rightarrow> error option \<times> bool" where
  "login_attempts u tr k 0 = (None, False)"
| "login_attempts u tr k (Suc n) =
     (if \<not> entry_ok (tr k) then (Some PlaywrightError, False)
      else if verify_login_success (verification (tr k)) then (None, True)
      else if py_in (takeWhile (\<lambda>c. c \<noteq> 63) (py_strip u)) (url_at_check (tr k))
              \<and> possible_error (tr k) \<noteq> []
           then (Some (LoginFailed (possible_error (tr k))), False)
      else login_attempts u tr (Suc k) n)"

definition perform_login :: "pystr \<Rightarrow> login_page \<Rightarrow> error option \<times> bool" where
  "perform_login u lp =
     (if \<not> login_page_loads lp then (Some PlaywrightError, False)
      else if \<not> (\<exists>k < 3. form_present lp k) then (Some NoLoginForm, False)
      else login_attempts u (tries lp) 0 3)"

section \<open>Routing to COMP\<close>

text \<open>
  \<open>route_clicked k\<close> is the result of the \<open>k\<close>-th call of \<open>click_route_button\<close>,
  \<open>ok_clicked k\<close> whether one of the fallbacks of the \<open>k\<close>-th OK step clicked. What
  follows the third Route click is inside a handler that returns \<open>True\<close>.
\<close>

record route_page =
  route_clicked :: "nat \<Rightarrow> bool"
  ok_clicked :: "nat \<Rightarrow> bool"

definition route_wo_to_comp :: "route_page \<Rightarrow> error option" where
  "route_wo_to_comp rp =
     (if \<not> route_clicked rp 0 then Some (RouteClickFailed 1)
      else if \<not> ok_clicked rp 0 then Some (RouteOkFailed 1)
      else if \<not> route_clicked rp 1 then Some (RouteClickFailed 2)
      else if \<not> ok_clicked rp 1 then Some (RouteOkFailed 2)
      else if \<not> route_clicked rp 2 then Some (RouteClickFailed 3)
      else None)"

section \<open>Adding services\<close>

text \<open>\<open>not x\<close>, \<open>str(x).strip() == ''\<close>, \<open>x == 0\<close> and \<open>pd.isna(x)\<close> on a cell.\<close>

fun cell_falsy :: "cell \<Rightarrow> bool" where
  "cell_falsy CNone = True"
| "cell_falsy CNaN = False"
| "cell_falsy (CNum q) = (q = 0)"
| "cell_falsy (CStr s) = (s = [])"

fun str_blank :: "cell \<Rightarrow> bool" where
  "str_blank (CStr s) = (py_strip s = [])"
| "str_blank c = False"

fun equals_zero :: "cell \<Rightarrow> bool" where
  "equals_zero (CNum q) = (q = 0)"
| "equals_zero c = False"

fun isna :: "cell \<Rightarrow> bool" where
  "isna CNone = True"
| "isna CNaN = True"
| "isna c = False"

text \<open>\<open>service.get(c, d)\<close> on a row, and the dictionary \<open>service_dict\<close> built from it.\<close>

definition get_or :: "service \<Rightarrow> column \<Rightarrow> cell \<Rightarrow> cell" where
  "get_or row c d = (case row c of None \<Rightarrow> d | Some v \<Rightarrow> v)"

definition service_dict :: "service \<Rightarrow> column \<Rightarrow> cell" where
  "service_dict row = (\<lambda>c. get_or row c CNone)"

datatype pyfloat = FNum rat | FNaN

datatype search_try = FieldNotFound | InputFailed | NoResults | ResultsFound | SearchRaised

datatype select_try = CheckboxClicked | RowClicked | NothingFound bool | ClickFailed

datatype ok_try = OkClicked | OkNotFound bool | OkClickFailed

text \<open>
  What the browser does during one call of \<open>add_single_service\<close>. \<open>interrupted\<close>: the
  stop event is set, or the 120 seconds are over, at one of the checks before the search.
  The \<open>_tries\<close> give the outcome of each pass of a retry loop; the flag of
  \<open>NothingFound\<close> and \<open>OkNotFound\<close> is the result of the JavaScript click, which only
  the last pass makes. \<open>float_of_text\<close> is \<open>float(q)\<close> for a quantity cell that holds a
  string, \<open>None\<close> when it raises.
\<close>

record line_page =
  interrupted :: bool
  select_button_ok :: bool
  filter_button_ok :: bool
  search_tries :: "nat \<Rightarrow> search_try"
  checkbox_tries :: "nat \<Rightarrow> select_try"
  ok_tries :: "nat \<Rightarrow> ok_try"
  float_of_text :: "pyfloat option"
  quantity_field_found :: bool
  quantity_echo :: "nat \<Rightarrow> bool"
  save_ok :: bool

datatype line_error =
    ItemEmpty | StoppedOrTimedOut | SelectButtonFailed | FilterButtonFailed
  | SearchExhausted | CheckboxExhausted | OkExhausted
  | QuantityInvalid | QuantityFieldMissing | QuantityExhausted | SaveFailed

text \<open>The retry loops, at pass \<open>k\<close> with \<open>n\<close> passes left; \<open>False\<close>: the loop raised.\<close>

fun search_loop :: "(nat \<Rightarrow> search_try) \<Rightarrow> nat \<Rightarrow> nat \<Rightarrow> bool" where
  "search_loop tr k 0 = False"
| "search_loop tr k (Suc n) =
     (if tr k = ResultsFound then True else search_loop tr (Suc k) n)"

fun select_loop :: "(nat \<Rightarrow> select_try) \<Rightarrow> nat \<Rightarrow> nat \<Rightarrow> bool" where
  "select_loop tr k 0 = False"
| "select_loop tr k (Suc n) =
     (case tr k of
        CheckboxClicked \<Rightarrow> True
      | RowClicked \<Rightarrow> True
      | NothingFound js \<Rightarrow> if n = 0 then js else select_loop tr (Suc k) n
      | ClickFailed \<Rightarrow> if n = 0 then False else select_loop tr (Suc k) n)"

fun ok_loop :: "(nat \<Rightarrow> ok_try) \<Rightarrow> nat \<Rightarrow> nat \<Rightarrow> bool" where
  "ok_loop tr k 0 = False"
| "ok_loop tr k (Suc n) =
     (case tr k of
        OkClicked \<Rightarrow> True
      | OkNotFound js \<Rightarrow> if n = 0 then js else ok_loop tr (Suc k) n
      | OkClickFailed \<Rightarrow> if n = 0 then False else ok_loop tr (Suc k) n)"

fun quantity_loop :: "(nat \<Rightarrow> bool) \<Rightarrow> nat \<Rightarrow> nat \<Rightarrow> bool" where
  "quantity_loop echo k 0 = False"
| "quantity_loop echo k (Suc n) = (if echo k then True else quantity_loop echo (Suc k) n)"

text \<open>\<open>float(service.get('Quantity', 1.00))\<close>; \<open>None\<close> when it raises.\<close>

fun py_float :: "line_page \<Rightarrow> cell \<Rightarrow> pyfloat option" where
  "py_float lp CNone = None"
| "py_float lp CNaN = Some FNaN"
| "py_float lp (CNum q) = Some (FNum q)"
| "py_float lp (CStr s) = float_of_text lp"

text \<open>The body of the outer \<open>try\<close> of \<open>add_single_service\<close>: the exception it ends with, if any.\<close>

definition try_add_single_service :: "line_page \<Rightarrow> (column \<Rightarrow> cell) \<Rightarrow> line_error option" where
  "try_add_single_service lp service =
     (if cell_falsy (service ServiceItem) \<or> str_blank (service ServiceItem) then Some ItemEmpty
      else if interrupted lp then Some StoppedOrTimedOut
      else if \<not> select_button_ok lp then Some SelectButtonFailed
      else if \<not> filter_button_ok lp then Some FilterButtonFailed
      else if \<not> search_loop (search_tries lp) 0 3 then Some SearchExhausted
      else if \<not> select_loop (checkbox_tries lp) 0 5 then Some CheckboxExhausted
      else if \<not> ok_loop (ok_tries lp) 0 5 then Some OkExhausted
      else case py_float lp (service Quantity) of
             None \<Rightarrow> Some QuantityInvalid
           | Some q \<Rightarrow>
               if q = FNum 1 then (if save_ok lp then None else Some SaveFailed)
               else if \<not> quantity_field_found lp then Some QuantityFieldMissing
               else if \<not> quantity_loop (quantity_echo lp) 0 3 then Some QuantityExhausted
               else if save_ok lp then None else Some SaveFailed)"

text \<open>
  \<open>add_single_service\<close>: the outer handler logs whatever the body raised and returns
  \<open>False\<close>; the function returns \<open>True\<close> at the end of the body.
\<close>

definition add_single_service :: "line_page \<Rightarrow> (column \<Rightarrow> cell) \<Rightarrow> bool" where
  "add_single_service lp service =
     (case try_add_single_service lp service of None \<Rightarrow> True | Some e \<Rightarrow> False)"

text \<open>
  What the browser does during \<open>add_services_to_wo\<close>: whether the two tab clicks and
  their waits succeed, the stop event at the top of each pass of the loop over the rows,
  the page during the call for each row, and the page during the routing that follows.
\<close>

record services_page =
  tabs_ok :: bool
  stop_before_line :: "nat \<Rightarrow> bool"
  line_pages :: "nat \<Rightarrow> line_page"
  route_after :: route_page

text \<open>
  The two tests that skip a row: \<open>quantity == 0 or pd.isna(quantity)\<close> on
  \<open>service.get('Quantity', 0)\<close>, and \<open>not service_item or str(service_item).strip() == ''\<close>
  on \<open>service.get('Service Item', '')\<close>.
\<close>

definition quantity_skipped :: "service \<Rightarrow> bool" where
  "quantity_skipped row =
     (let quantity = get_or row Quantity (CNum 0) in equals_zero quantity \<or> isna quantity)"

definition item_skipped :: "service \<Rightarrow> bool" where
  "item_skipped row =
     (let service_item = get_or row ServiceItem (CStr [])
      in cell_falsy service_item \<or> str_blank service_item)"

text \<open>The loop over \<open>enumerate(self.services_data.iterrows())\<close>, from index \<open>idx\<close> on.\<close>

fun add_lines :: "services_page \<Rightarrow> nat \<Rightarrow> service list \<Rightarrow> event list" where
  "add_lines sp idx [] = []"
| "add_lines sp idx (row # rows) =
     (if stop_before_line sp idx then [LogStopWhileAdding]
      else if quantity_skipped row
      then LogSkipZeroQuantity (idx + 8) # add_lines sp (Suc idx) rows
      else if item_skipped row
      then LogSkipEmptyItem (idx + 8) # add_lines sp (Suc idx) rows
      else AddSingleService (idx + 8) (service_dict row)
             (add_single_service (line_pages sp idx) (service_dict row))
           # add_lines sp (Suc idx) rows)"

text \<open>
  \<open>add_services_to_wo\<close>: the exception that leaves it, and its events. The result of
  \<open>add_single_service\<close> is not looked at; after the loop the function routes the work
  order to COMP itself.
\<close>

definition add_services_to_wo :: "services_page \<Rightarrow> automation \<Rightarrow> error option \<times> event list" where
  "add_services_to_wo sp a =
     (if \<not> tabs_ok sp then (Some PlaywrightError, [])
      else case services_data a of
             None \<Rightarrow> (None, [LogNoServices])
           | Some [] \<Rightarrow> (None, [LogNoServices])
           | Some rows \<Rightarrow>
               (route_wo_to_comp (route_after sp), add_lines sp 0 rows @ [RouteToComp]))"

section \<open>Entering the prices\<close>

text \<open>
  The dictionary \<open>excel_services_map\<close>: item to total price, for the rows with a truthy
  item and a price that is not \<open>None\<close>. \<open>service['Service Item']\<close> raises \<open>KeyError\<close> on
  a row without the column.
\<close>

fun build_map :: "service list \<Rightarrow> (cell \<rightharpoonup> cell) \<Rightarrow> error + (cell \<rightharpoonup> cell)" where
  "build_map [] m = Inr m"
| "build_map (row # rows) m =
     (case row ServiceItem of
        None \<Rightarrow> Inl KeyError
      | Some service_item \<Rightarrow>
          (case row TotalPrice of
             None \<Rightarrow> Inl KeyError
           | Some total_price \<Rightarrow>
               if \<not> cell_falsy service_item \<and> total_price \<noteq> CNone
               then build_map rows (m(service_item \<mapsto> total_price))
               else build_map rows m))"

definition excel_services_map :: "automation \<Rightarrow> error + (cell \<rightharpoonup> cell)" where
  "excel_services_map a =
     (case services_data a of None \<Rightarrow> Inr Map.empty | Some rows \<Rightarrow> build_map rows Map.empty)"

text \<open>
  A row of the Services table as the in-page script returns it, with the outcome of the
  script that sets its price field.
\<close>

record price_row =
  service_code :: "pystr option"
  input_id :: pystr
  write_result :: eval_result

text \<open>
  One pass of the loop over \<open>service_elements\<close>: the events of the row and the set
  \<open>processed_services\<close> after it. A script that raises leaves the set as it is.
\<close>

definition process_row ::
  "(cell \<rightharpoonup> cell) \<Rightarrow> price_row \<Rightarrow> pystr set \<Rightarrow> event list \<times> pystr set" where
  "process_row m r processed =
     (case service_code r of
        None \<Rightarrow> ([], processed)
      | Some code \<Rightarrow>
          if code = [] \<or> code \<in> processed then ([], processed)
          else (case m (CStr code) of
                  Some excel_price \<Rightarrow>
                    ([SetPrice code (input_id r) excel_price (write_result r)],
                     if write_result r = Raised then processed else insert code processed)
                | None \<Rightarrow>
                    ([SetZeroPrice code (input_id r) (write_result r)],
                     if write_result r = Raised then processed else insert code processed)))"

fun process_rows ::
  "(cell \<rightharpoonup> cell) \<Rightarrow> price_row list \<Rightarrow> pystr set \<Rightarrow> event list \<times> pystr set" where
  "process_rows m [] processed = ([], processed)"
| "process_rows m (r # rs) processed =
     (case process_row m r processed of
        (evs, processed') \<Rightarrow>
          (case process_rows m rs processed' of
             (evs', processed'') \<Rightarrow> (evs @ evs', processed'')))"

text \<open>
  A results page: the rows the script extracts (\<open>None\<close> when it raises), whether the
  "next page" control is there, visible and not greyed out, and whether clicking it and
  waiting for the next page succeeds.
\<close>

record results_page =
  page_rows :: "price_row list option"
  next_enabled :: bool
  next_click_ok :: bool

text \<open>
  The \<open>while True\<close> loop, at page \<open>n\<close>: \<open>None\<close> when it has not ended after \<open>fuel\<close>
  pages, else the exception raised (if any), the events and the processed set.
\<close>

fun price_pages ::
  "nat \<Rightarrow> (cell \<rightharpoonup> cell) \<Rightarrow> (nat \<Rightarrow> results_page) \<Rightarrow> nat \<Rightarrow> pystr set
     \<Rightarrow> (error option \<times> event list \<times> pystr set) option" where
  "price_pages 0 m pg n processed = None"
| "price_pages (Suc fuel) m pg n processed =
     (case page_rows (pg n) of
        None \<Rightarrow> Some (Some PlaywrightError, [], processed)
      | Some rows \<Rightarrow>
          if rows = [] then Some (None, [], processed)
          else (case process_rows m rows processed of
                  (evs, processed') \<Rightarrow>
                    if \<not> next_enabled (pg n) then Some (None, evs, processed')
                    else if \<not> next_click_ok (pg n) then Some (None, evs, processed')
                    else (case price_pages fuel m pg (Suc n) processed' of
                            None \<Rightarrow> None
                          | Some (r, evs', processed'') \<Rightarrow> Some (r, evs @ evs', processed''))))"

record prices_page =
  services_tab_ok :: bool
  result_pages :: "nat \<Rightarrow> results_page"
  save_clicked :: bool
  resave_clicked :: bool

definition enter_services_prices ::
  "nat \<Rightarrow> prices_page \<Rightarrow> automation \<Rightarrow> (error option \<times> event list \<times> pystr set) option" where
  "enter_services_prices fuel pp a =
     (if \<not> services_tab_ok pp then Some (Some PlaywrightError, [], {})
      else case excel_services_map a of
             Inl e \<Rightarrow> Some (Some e, [], {})
           | Inr m \<Rightarrow> price_pages fuel m (result_pages pp) 0 {})"

text \<open>\<open>save_bill_changes\<close> raises when no attempt clicked a save button.\<close>

definition save_bill_changes :: "bool \<Rightarrow> error option \<times> event list" where
  "save_bill_changes clicked = (if clicked then (None, [SaveBill]) else (Some NoSaveButton, []))"

definition process_customer_bill ::
  "nat \<Rightarrow> prices_page \<Rightarrow> automation \<Rightarrow> (error option \<times> event list) option" where
  "process_customer_bill fuel pp a =
     (case enter_services_prices fuel pp a of
        None \<Rightarrow> None
      | Some (Some e, evs, processed) \<Rightarrow> Some (Some e, evs)
      | Some (None, evs, processed) \<Rightarrow>
          (case save_bill_changes (save_clicked pp) of (r, evs') \<Rightarrow> Some (r, evs @ evs')))"

section \<open>The run\<close>

datatype status =
    Initializing | PleaseUploadExcel | StoppedBeforeLaunch | LoginSuccessful
  | FailedReadingExcel | StoppedBetweenSheets | ProcessingSheet nat nat pystr
  | StopRequestedExitingSheet | AutomationComplete | AutomationError error

text \<open>
  What a run does, in order: the statuses it sets, the stages it starts with the events
  of each, the calls of \<open>update_excel_file\<close> (the one \<open>save_bill_info\<close> makes, and the
  one at the end of a sheet) with the object written and the result, and the release of
  the browser and of the controls.
\<close>

datatype run_event =
    Status status
  | MissingWO pystr
  | SearchWorkOrder "pystr option"
  | Stage pystr
  | Browser event
  | BillInfoSaved automation bool
  | Checkpoint automation bool
  | SheetProcessed pystr
  | CloseBrowser
  | EnableControls

text \<open>\<open>save_bill_info\<close>: the object and the files after it, and its write-back if it made one.\<close>

definition save_bill_info :: "automation \<Rightarrow> filesys \<Rightarrow> automation \<times> filesys \<times> run_event list" where
  "save_bill_info a fs =
     (if \<not> truthy (bill_batch a) then (a, fs, [])
      else let a' = (if (\<not> truthy (wo_description a) \<or> py_in placeholder_en (the (wo_description a))
                          \<or> py_in placeholder_ar (the (wo_description a)))
                        \<and> truthy (excel_original_description a)
                     then a\<lparr>wo_description := excel_original_description a\<rparr> else a)
           in case update_excel_file a' fs of (ok, fs') \<Rightarrow> (a', fs', [BillInfoSaved a' ok]))"

definition add_services :: pystr where "add_services = py ''add_services''"
definition route_to_comp :: pystr where "route_to_comp = py ''route_to_comp''"
definition create_bill :: pystr where "create_bill = py ''create_bill''"
definition put_prices :: pystr where "put_prices = py ''put_prices''"

definition canonical :: "pystr list" where
  "canonical = [add_services, route_to_comp, create_bill, put_prices]"

text \<open>\<open>xs.index(x)\<close>; \<open>None\<close> for \<open>ValueError\<close>.\<close>

fun index_of :: "'a \<Rightarrow> 'a list \<Rightarrow> nat option" where
  "index_of x [] = None"
| "index_of x (y # ys) = (if x = y then Some 0 else map_option Suc (index_of x ys))"

definition start_idx :: "pystr \<Rightarrow> nat" where
  "start_idx s = (case index_of s canonical of None \<Rightarrow> 0 | Some i \<Rightarrow> i)"

text \<open>\<open>ordered = [s for s in canonical[start_idx:] if s in selected_steps]\<close>\<close>

definition ordered :: "params \<Rightarrow> pystr list" where
  "ordered p = filter (\<lambda>s. s \<in> set (selected_steps p)) (drop (start_idx (start_at p)) canonical)"

text \<open>
  What pandas reads from a sheet: \<open>ReadError\<close> when \<open>read_excel\<close> raises; else column B
  from the first row down (\<open>None\<close> for an empty cell, else \<open>str\<close> of the cell) and the
  services table (no rows when there is no header row; \<open>SvcError\<close> when building it raises).
\<close>

datatype svc_table = SvcError | SvcRows "service list"

datatype sheet_read = ReadError | ReadOk "pystr option list" svc_table

text \<open>
  The header B2 to B6: five assignments in a \<open>try\<close> whose handler passes, so that the
  first cell out of range leaves the remaining attributes as they were.
\<close>

definition read_header :: "pystr option list \<Rightarrow> automation \<Rightarrow> automation" where
  "read_header col a =
     (if length col \<le> 1 then a
      else let a1 = a\<lparr>wo_number := map_option py_strip (col ! 1)\<rparr> in
      if length col \<le> 2 then a1
      else let a2 = a1\<lparr>wo_description := map_option py_strip (col ! 2)\<rparr> in
      if length col \<le> 3 then a2
      else let a3 = a2\<lparr>bill_batch := map_option py_strip (col ! 3)\<rparr> in
      if length col \<le> 4 then a3
      else let a4 = a3\<lparr>bill_status := map_option py_strip (col ! 4)\<rparr> in
      if length col \<le> 5 then a4
      else a4\<lparr>reviewed_by := map_option py_strip (col ! 5)\<rparr>)"

fun parse_sheet :: "sheet_read \<Rightarrow> automation \<Rightarrow> automation" where
  "parse_sheet ReadError a = a\<lparr>services_data := Some []\<rparr>"
| "parse_sheet (ReadOk col SvcError) a = (read_header col a)\<lparr>services_data := Some []\<rparr>"
| "parse_sheet (ReadOk col (SvcRows rows)) a = (read_header col a)\<lparr>services_data := Some rows\<rparr>"

text \<open>
  What the world does while one sheet is processed: the stop event at the top of the
  sheet and before each step, what pandas reads, whether \<open>search_work_order\<close> returns,
  the browser during each stage, and the date.
\<close>

record sheet_env =
  stop_before_sheet :: bool
  sheet_read :: sheet_read
  search_ok :: bool
  stop_before_step :: "nat \<Rightarrow> bool"
  services_page :: services_page
  route_page :: route_page
  bill_page :: bill_page
  bill_month :: month
  bill_year :: nat
  prices_page :: prices_page

type_synonym step_result = "error option \<times> automation \<times> filesys \<times> run_event list"

text \<open>One branch of the \<open>if step == ...\<close> chain.\<close>

definition run_step ::
  "nat \<Rightarrow> sheet_env \<Rightarrow> pystr \<Rightarrow> automation \<Rightarrow> filesys \<Rightarrow> step_result option" where
  "run_step fuel se step a fs =
     (if step = add_services then
        (case add_services_to_wo (services_page se) a of
           (r, evs) \<Rightarrow> Some (r, a, fs, map Browser evs))
      else if step = route_to_comp then
        Some (route_wo_to_comp (route_page se), a, fs, [Browser RouteToComp])
      else if step = create_bill then
        (case create_customer_bill (bill_page se) (bill_month se) (bill_year se) a of
           (Some e, a', evs) \<Rightarrow> Some (Some e, a', fs, map Browser evs)
         | (None, a', evs) \<Rightarrow>
             (case save_bill_info a' fs of
                (a'', fs', evs') \<Rightarrow> Some (None, a'', fs', map Browser evs @ evs')))
      else if step = put_prices then
        (case process_customer_bill fuel (prices_page se) a of
           None \<Rightarrow> None
         | Some (Some e, evs) \<Rightarrow> Some (Some e, a, fs, map Browser evs)
         | Some (None, evs) \<Rightarrow>
             Some (None, a, fs,
                   map Browser (evs @ (if resave_clicked (prices_page se) then [SaveBill] else []))))
      else Some (None, a, fs, []))"

text \<open>The loop \<open>for step in ordered\<close>, at position \<open>k\<close>.\<close>

fun run_steps ::
  "nat \<Rightarrow> sheet_env \<Rightarrow> nat \<Rightarrow> pystr list \<Rightarrow> automation \<Rightarrow> filesys \<Rightarrow> step_result option" where
  "run_steps fuel se k [] a fs = Some (None, a, fs, [])"
| "run_steps fuel se k (step # steps) a fs =
     (if stop_before_step se k then Some (None, a, fs, [Status StopRequestedExitingSheet])
      else case run_step fuel se step a fs of
             None \<Rightarrow> None
           | Some (Some e, a', fs', evs) \<Rightarrow> Some (Some e, a', fs', Stage step # evs)
           | Some (None, a', fs', evs) \<Rightarrow>
               (case run_steps fuel se (Suc k) steps a' fs' of
                  None \<Rightarrow> None
                | Some (r, a'', fs'', evs') \<Rightarrow> Some (r, a'', fs'', Stage step # evs @ evs')))"

text \<open>
  The body of the loop over the sheets, after the stop check, for sheet \<open>idx\<close> of
  \<open>n_sheets\<close>; \<open>page\<close>: the browser started.
\<close>

definition process_sheet ::
  "nat \<Rightarrow> params \<Rightarrow> bool \<Rightarrow> sheet_env \<Rightarrow> nat \<Rightarrow> nat \<Rightarrow> pystr \<Rightarrow> automation \<Rightarrow> filesys
     \<Rightarrow> step_result option" where
  "process_sheet fuel p page se idx n_sheets sheet a fs =
     (let a1 = parse_sheet (sheet_read se) (a\<lparr>current_sheet := Some sheet\<rparr>);
          start = [Status (ProcessingSheet idx n_sheets sheet)]
      in if \<not> truthy (wo_number a1) then Some (None, a1, fs, start @ [MissingWO sheet])
         else if page then
           (if \<not> search_ok se
            then Some (Some SearchFailed, a1, fs, start @ [SearchWorkOrder (wo_number a1)])
            else case run_steps fuel se 0 (ordered p) a1 fs of
                   None \<Rightarrow> None
                 | Some (Some e, a2, fs2, evs) \<Rightarrow>
                     Some (Some e, a2, fs2, start @ SearchWorkOrder (wo_number a1) # evs)
                 | Some (None, a2, fs2, evs) \<Rightarrow>
                     (case update_excel_file a2 fs2 of
                        (ok, fs3) \<Rightarrow>
                          Some (None, a2, fs3,
                                start @ SearchWorkOrder (wo_number a1) # evs
                                  @ [Checkpoint a2 ok, SheetProcessed sheet])))
         else (case update_excel_file a1 fs of
                 (ok, fs3) \<Rightarrow>
                   Some (None, a1, fs3, start @ [Checkpoint a1 ok, SheetProcessed sheet])))"

text \<open>The loop \<open>for idx, sheet in enumerate(sheet_names, 1)\<close>, from sheet \<open>idx\<close> on.\<close>

fun process_sheets ::
  "nat \<Rightarrow> params \<Rightarrow> bool \<Rightarrow> (nat \<Rightarrow> sheet_env) \<Rightarrow> nat \<Rightarrow> nat \<Rightarrow> pystr list \<Rightarrow> automation
     \<Rightarrow> filesys \<Rightarrow> step_result option" where
  "process_sheets fuel p page envs idx n_sheets [] a fs = Some (None, a, fs, [])"
| "process_sheets fuel p page envs idx n_sheets (sheet # sheets) a fs =
     (if stop_before_sheet (envs idx) then Some (None, a, fs, [Status StoppedBetweenSheets])
      else case process_sheet fuel p page (envs idx) idx n_sheets sheet a fs of
             None \<Rightarrow> None
           | Some (Some e, a', fs', evs) \<Rightarrow> Some (Some e, a', fs', evs)
           | Some (None, a', fs', evs) \<Rightarrow>
               (case process_sheets fuel p page envs (Suc idx) n_sheets sheets a' fs' of
                  None \<Rightarrow> None
                | Some (r, a'', fs'', evs') \<Rightarrow> Some (r, a'', fs'', evs @ evs')))"

text \<open>
  What the world does during a run: the stop event at the early check, whether the
  browser starts, the login page, the sheet names pandas reads (\<open>None\<close> when it raises)
  and the environment of each sheet, numbered from 1.
\<close>

record run_env =
  stop_early :: bool
  browser_starts :: bool
  login_page :: login_page
  sheet_names :: "pystr list option"
  sheet_envs :: "nat \<Rightarrow> sheet_env"

definition release :: "run_event list" where
  "release = [CloseBrowser, EnableControls]"

text \<open>
  \<open>run_automation\<close>: the files after the run and what the run did; \<open>None\<close> when a price
  loop has not ended within \<open>fuel\<close> pages. Any exception of the body ends the run in the
  handler that sets the status "Automation error".
\<close>

definition run_automation ::
  "nat \<Rightarrow> params \<Rightarrow> run_env \<Rightarrow> filesys \<Rightarrow> (filesys \<times> run_event list) option" where
  "run_automation fuel p env fs =
     (if \<not> truthy (excel_path p)
      then Some (fs, [Status Initializing, Status PleaseUploadExcel, EnableControls] @ release)
      else if stop_early env
      then Some (fs, [Status Initializing, Status StoppedBeforeLaunch, EnableControls] @ release)
      else case (if browser_starts env then perform_login (url p) (login_page env)
                 else (None, False)) of
        (Some e, ok) \<Rightarrow> Some (fs, [Status Initializing, Status (AutomationError e)] @ release)
      | (None, ok) \<Rightarrow>
          (let pre = Status Initializing # (if ok then [Status LoginSuccessful] else []) in
           case sheet_names env of
             None \<Rightarrow> Some (fs, pre @ [Status FailedReadingExcel, EnableControls] @ release)
           | Some names \<Rightarrow>
               (case process_sheets fuel p (browser_starts env) (sheet_envs env) 1
                       (length names) names (new_automation p) fs of
                  None \<Rightarrow> None
                | Some (Some e, a, fs', evs) \<Rightarrow>
                    Some (fs', pre @ evs @ [Status (AutomationError e)] @ release)
                | Some (None, a, fs', evs) \<Rightarrow>
                    Some (fs', pre @ evs @ [Status AutomationComplete] @ release))))"

(*MODEL*)

section \<open>Concrete inputs\<close>

definition a0 :: automation where
  "a0 = \<lparr>paused = False, working_excel_path = Some (py ''wo.xlsx''),
     current_sheet = Some (py ''Sheet1''), wo_number = Some (py ''1001''),
     wo_description = None, excel_original_description = None, bill_batch = None,
     bill_status = None, reviewed_by = None, services_data = None\<rparr>"

definition bp0 :: bill_page where
  "bp0 = \<lparr>bill_page_loads = True, action_input_visible = True, dropdown_visible = False,
     create_bill_visible = (\<lambda>k. k = 2), batch_visible = True, batch_value = py '' 7781 '',
     batch_js_value = None, desc_input_visible = True, ok_visible = True,
     alt_ok_visible = False, bill_saved_loads = True\<rparr>"

definition wb0 :: workbook where
  "wb0 = \<lparr>sheetnames = [py ''Sheet1'', py ''Sheet2''], active_index = 0,
     cells = (\<lambda>s r. None)\<rparr>"

definition fs0 :: filesys where
  "fs0 = \<lparr>files = [py ''wo.xlsx'' \<mapsto> wb0], locked = {}\<rparr>"

definition params0 :: params where
  "params0 = \<lparr>excel_path = Some (py ''wo.xlsx''), url = py ''https://host/login/login.jsp'',
     selected_steps = [route_to_comp], start_at = route_to_comp\<rparr>"

definition login_stuck :: verify_obs where
  "login_stuck = \<lparr>url_before = py ''https://host/login/login.jsp'',
     body_text = Some (py ''Sign in''), url_after = py ''https://host/login/login.jsp''\<rparr>"

definition try_stuck :: login_try where
  "try_stuck = \<lparr>entry_ok = True, verification = (\<lambda>j. login_stuck),
     url_at_check = py ''https://host/login/login.jsp'', possible_error = []\<rparr>"

definition lp_stuck :: login_page where
  "lp_stuck = \<lparr>login_page_loads = True, form_present = (\<lambda>k. True), tries = (\<lambda>k. try_stuck)\<rparr>"

definition route_ok :: route_page where
  "route_ok = \<lparr>route_clicked = (\<lambda>k. True), ok_clicked = (\<lambda>k. True)\<rparr>"

definition route_bad :: route_page where
  "route_bad = \<lparr>route_clicked = (\<lambda>k. False), ok_clicked = (\<lambda>k. True)\<rparr>"

definition line_ok :: line_page where
  "line_ok = \<lparr>interrupted = False, select_button_ok = True, filter_button_ok = True,
     search_tries = (\<lambda>k. ResultsFound), checkbox_tries = (\<lambda>k. CheckboxClicked),
     ok_tries = (\<lambda>k. OkClicked), float_of_text = None, quantity_field_found = True,
     quantity_echo = (\<lambda>k. True), save_ok = True\<rparr>"

definition line_not_found :: line_page where
  "line_not_found = line_ok\<lparr>search_tries := (\<lambda>k. NoResults)\<rparr>"

definition sp_ok :: services_page where
  "sp_ok = \<lparr>tabs_ok = True, stop_before_line = (\<lambda>k. False), line_pages = (\<lambda>k. line_ok),
     route_after = route_ok\<rparr>"

definition pp_empty :: prices_page where
  "pp_empty = \<lparr>services_tab_ok = True,
     result_pages = (\<lambda>n. \<lparr>page_rows = Some [], next_enabled = False, next_click_ok = False\<rparr>),
     save_clicked = True, resave_clicked = True\<rparr>"

definition se_ok :: sheet_env where
  "se_ok = \<lparr>stop_before_sheet = False,
     sheet_read = ReadOk [None, Some (py ''1001'')] (SvcRows []),
     search_ok = True, stop_before_step = (\<lambda>k. False), services_page = sp_ok,
     route_page = route_ok, bill_page = bp0, bill_month = Jan, bill_year = 2025,
     prices_page = pp_empty\<rparr>"

definition env_stuck :: run_env where
  "env_stuck = \<lparr>stop_early = False, browser_starts = True, login_page = lp_stuck,
     sheet_names = Some [py ''Sheet1''], sheet_envs = (\<lambda>k. se_ok)\<rparr>"

definition a1 :: automation where
  "a1 = (new_automation params0)\<lparr>current_sheet := Some (py ''Sheet1''),
     wo_number := Some (py ''1001''), services_data := Some []\<rparr>"

definition row_a :: service where
  "row_a = [ServiceItem \<mapsto> CStr (py ''IS1''), Quantity \<mapsto> CNum 1]"

definition row_b :: service where
  "row_b = [ServiceItem \<mapsto> CStr (py ''IS2''), Quantity \<mapsto> CNum 2]"

definition row_zero :: service where
  "row_zero = [ServiceItem \<mapsto> CStr (py ''IS3''), Quantity \<mapsto> CNum 0]"

definition sp_first_fails :: services_page where
  "sp_first_fails = sp_ok\<lparr>line_pages := (\<lambda>k. if k = 0 then line_not_found else line_ok)\<rparr>"

definition a_two_lines :: automation where
  "a_two_lines = a0\<lparr>services_data := Some [row_a, row_b]\<rparr>"

definition a_zero_line :: automation where
  "a_zero_line = a0\<lparr>services_data := Some [row_zero, row_b]\<rparr>"

fun written_codes :: "event list \<Rightarrow> pystr list" where
  "written_codes [] = []"
| "written_codes (SetPrice c i p (Returned b) # evs) = c # written_codes evs"
| "written_codes (SetZeroPrice c i (Returned b) # evs) = c # written_codes evs"
| "written_codes (e # evs) = written_codes evs"

definition row_priced :: service where
  "row_priced = [ServiceItem \<mapsto> CStr (py ''IS1''), Quantity \<mapsto> CNum 1, TotalPrice \<mapsto> CNum 50]"

definition a_priced :: automation where
  "a_priced = a0\<lparr>services_data := Some [row_priced]\<rparr>"

definition price_row_a :: price_row where
  "price_row_a = \<lparr>service_code = Some (py ''IS1''), input_id = py ''a'', write_result = Returned True\<rparr>"

definition price_row_b :: price_row where
  "price_row_b = \<lparr>service_code = Some (py ''IS1''), input_id = py ''b'', write_result = Returned True\<rparr>"

definition price_row_c :: price_row where
  "price_row_c = \<lparr>service_code = Some (py ''IS2''), input_id = py ''c'', write_result = Returned True\<rparr>"

definition pp_two_pages :: prices_page where
  "pp_two_pages = \<lparr>services_tab_ok = True,
     result_pages = (\<lambda>n. if n = 0
        then \<lparr>page_rows = Some [price_row_a], next_enabled = True, next_click_ok = True\<rparr>
        else \<lparr>page_rows = Some [price_row_b, price_row_c], next_enabled = False,
              next_click_ok = False\<rparr>),
     save_clicked = True, resave_clicked = True\<rparr>"

definition pp_same_code_twice :: prices_page where
  "pp_same_code_twice = \<lparr>services_tab_ok = True,
     result_pages = (\<lambda>n. \<lparr>page_rows = Some [price_row_c, price_row_c\<lparr>input_id := py ''d''\<rparr>],
        next_enabled = False, next_click_ok = False\<rparr>),
     save_clicked = True, resave_clicked = True\<rparr>"

fun stages_of :: "run_event list \<Rightarrow> pystr list" where
  "stages_of [] = []"
| "stages_of (Stage s # evs) = s # stages_of evs"
| "stages_of (e # evs) = stages_of evs"

definition params_route_bill :: params where
  "params_route_bill = params0\<lparr>selected_steps := [route_to_comp, create_bill]\<rparr>"

definition params_spec_example :: params where
  "params_spec_example = params0\<lparr>selected_steps := [add_services, create_bill, put_prices],
     start_at := create_bill\<rparr>"

definition se_stop_after_first :: sheet_env where
  "se_stop_after_first = se_ok\<lparr>stop_before_step := (\<lambda>k. k = 1)\<rparr>"



definition row_nan_item :: service where
  "row_nan_item = [ServiceItem \<mapsto> CNaN, Quantity \<mapsto> CNum 2]"

definition row_nan_quantity :: service where
  "row_nan_quantity = [ServiceItem \<mapsto> CStr (py ''IS1''), Quantity \<mapsto> CNaN]"

definition a_nan_item :: automation where
  "a_nan_item = a0\<lparr>services_data := Some [row_nan_item]\<rparr>"

definition params_add_only :: params where
  "params_add_only = params0\<lparr>selected_steps := [add_services], start_at := add_services\<rparr>"

definition params_add_route :: params where
  "params_add_route = params0\<lparr>selected_steps := [add_services, route_to_comp],
     start_at := add_services\<rparr>"

definition price_row_mapped :: price_row where
  "price_row_mapped = \<lparr>service_code = Some (py ''IS1''), input_id = py ''a'', write_result = Raised\<rparr>"

definition pp_mapped :: prices_page where
  "pp_mapped = \<lparr>services_tab_ok = True,
     result_pages = (\<lambda>n. \<lparr>page_rows = Some [price_row_mapped], next_enabled = False,
        next_click_ok = False\<rparr>),
     save_clicked = True, resave_clicked = True\<rparr>"

definition login_done :: verify_obs where
  "login_done = \<lparr>url_before = py ''https://host/maximo/ui/'',
     body_text = Some (py ''Welcome''), url_after = py ''https://host/maximo/ui/''\<rparr>"

definition try_done :: login_try where
  "try_done = \<lparr>entry_ok = True, verification = (\<lambda>j. login_done),
     url_at_check = py ''https://host/maximo/ui/'', possible_error = []\<rparr>"

definition lp_ok :: login_page where
  "lp_ok = \<lparr>login_page_loads = True, form_present = (\<lambda>k. True), tries = (\<lambda>k. try_done)\<rparr>"

definition se_route_bad :: sheet_env where
  "se_route_bad = se_ok\<lparr>route_page := route_bad\<rparr>"

definition env_route_fails :: run_env where
  "env_route_fails = \<lparr>stop_early = False, browser_starts = True, login_page = lp_ok,
     sheet_names = Some [py ''Sheet1'', py ''Sheet2''],
     sheet_envs = (\<lambda>k. if k = 1 then se_route_bad else se_ok)\<rparr>"

(*THEOREMS*)

section \<open>Strings\<close>

lemma starts_with_refl: "starts_with s s"
  by (induction s) auto

lemma py_in_refl: "py_in s s"
  by (cases s) (auto simp: starts_with_refl)

lemma all_dropWhile_iff: "(\<forall>x\<in>set (dropWhile P xs). P x) \<longleftrightarrow> (\<forall>x\<in>set xs. P x)"
proof
  assume h: "\<forall>x\<in>set (dropWhile P xs). P x"
  have "set xs = set (takeWhile P xs) \<union> set (dropWhile P xs)"
    by (metis set_append takeWhile_dropWhile_id)
  with h show "\<forall>x\<in>set xs. P x"
    by (auto dest: set_takeWhileD)
next
  assume "\<forall>x\<in>set xs. P x"
  then show "\<forall>x\<in>set (dropWhile P xs). P x"
    by (auto dest: set_dropWhileD)
qed

lemma py_strip_empty_iff: "py_strip s = [] \<longleftrightarrow> list_all is_space s"
  unfolding py_strip_def list_all_iff
  by (simp only: rev_is_Nil_conv dropWhile_eq_Nil_conv set_rev all_dropWhile_iff)

lemma py_strip_not_blank: "py_strip s \<noteq> [] \<Longrightarrow> \<not> list_all is_space (py_strip s)"
proof -
  assume ne: "py_strip s \<noteq> []"
  let ?d = "dropWhile is_space (rev (dropWhile is_space s))"
  from ne have d: "?d \<noteq> []" by (simp add: py_strip_def)
  then have "\<not> is_space (hd ?d)" by (rule hd_dropWhile)
  moreover from d have "hd ?d \<in> set (py_strip s)" by (simp add: py_strip_def)
  ultimately show ?thesis by (auto simp: list_all_iff)
qed


section \<open>The bill name\<close>





lemma unusable_cases:
  "d = None \<or> (\<exists>s. d = Some s \<and> (list_all is_space s \<or> s = placeholder_en \<or> s = placeholder_ar))
   \<Longrightarrow> unusable_description d"
  by (auto simp: unusable_description_def py_in_refl py_strip_empty_iff)


section \<open>The checkpoint\<close>

lemma write_header_B5:
  "cells (write_header a ws wb) ws B5 =
     Some (if truthy (bill_status a) then the (bill_status a) else CREATED)"
  by (simp add: write_header_def set_if_def set_cell_def Let_def)

lemma CREATED_not_blank: "\<not> list_all is_space CREATED"
  by (simp add: CREATED_def py_def is_space_def)

text \<open>
  C10. A checkpoint that \<open>update_excel_file\<close> reports as done has saved the workbook
  with cell B5 of the sheet it wrote to holding the bill status when that is set and
  non-empty, and \<open>CREATED\<close> otherwise; B5 is never empty, and it is not blank for a bill
  status that was stripped when it was read, as every bill status of the run is.
\<close>

theorem update_excel_file_bill_status:
  assumes "update_excel_file a fs = (True, fs')"
  shows "\<exists>p wb ws wb'. working_excel_path a = Some p \<and> files fs p = Some wb
           \<and> target_sheet a wb = Some ws \<and> files fs' p = Some wb'
           \<and> cells wb' ws B5 = Some (if truthy (bill_status a) then the (bill_status a) else CREATED)
           \<and> cells wb' ws B5 \<noteq> Some []
           \<and> (\<not> truthy (bill_status a) \<longrightarrow> cells wb' ws B5 = Some (py ''CREATED''))
           \<and> ((\<exists>c. bill_status a = map_option py_strip c) \<longrightarrow>
                (\<forall>v. cells wb' ws B5 = Some v \<longrightarrow> \<not> list_all is_space v))"
proof -
  from assms obtain p where p: "working_excel_path a = Some p"
    by (cases "working_excel_path a") (auto simp: update_excel_file_def)
  from assms p obtain wb where wb: "files fs p = Some wb"
    by (cases "files fs p") (auto simp: update_excel_file_def split: if_splits)
  from assms p wb obtain ws where ws: "target_sheet a wb = Some ws"
    by (cases "target_sheet a wb") (auto simp: update_excel_file_def split: if_splits)
  from assms p wb ws have fs': "fs' = fs\<lparr>files := (files fs)(p \<mapsto> write_header a ws wb)\<rparr>"
    by (auto simp: update_excel_file_def split: if_splits)
  let ?v = "if truthy (bill_status a) then the (bill_status a) else CREATED"
  have v: "cells (write_header a ws wb) ws B5 = Some ?v"
    by (rule write_header_B5)
  have ne: "?v \<noteq> []"
    by (cases "bill_status a") (auto simp: CREATED_def py_def)
  have nb: "\<not> list_all is_space ?v" if "bill_status a = map_option py_strip c" for c
  proof (cases "truthy (bill_status a)")
    case True
    with that obtain s where "c = Some s" "bill_status a = Some (py_strip s)" "py_strip s \<noteq> []"
      by (cases c) auto
    then show ?thesis using py_strip_not_blank [of s] by simp
  next
    case False
    then show ?thesis by (simp add: CREATED_not_blank)
  qed
  have c: "\<not> truthy (bill_status a) \<Longrightarrow> ?v = py ''CREATED''"
    by (simp add: CREATED_def)
  from fs' have f: "files fs' p = Some (write_header a ws wb)"
    by simp
  show ?thesis
  proof (intro exI conjI)
    show "working_excel_path a = Some p" by (rule p)
    show "files fs p = Some wb" by (rule wb)
    show "target_sheet a wb = Some ws" by (rule ws)
    show "files fs' p = Some (write_header a ws wb)" by (rule f)
    show "cells (write_header a ws wb) ws B5 = Some ?v" by (rule v)
    show "cells (write_header a ws wb) ws B5 \<noteq> Some []" using v ne by simp
    show "\<not> truthy (bill_status a) \<longrightarrow> cells (write_header a ws wb) ws B5 = Some (py ''CREATED'')"
      using v c by simp
    show "(\<exists>c. bill_status a = map_option py_strip c) \<longrightarrow>
            (\<forall>v. cells (write_header a ws wb) ws B5 = Some v \<longrightarrow> \<not> list_all is_space v)"
    proof (intro impI allI)
      fix u
      assume "\<exists>c. bill_status a = map_option py_strip c"
      then obtain c where "bill_status a = map_option py_strip c" ..
      then have "\<not> list_all is_space ?v" by (rule nb)
      moreover assume "cells (write_header a ws wb) ws B5 = Some u"
      with v have "u = ?v" by simp
      ultimately show "\<not> list_all is_space u" by simp
    qed
  qed
qed

theorem update_excel_file_bill_status_witness:
  "update_excel_file a0 fs0 = (True, fs0\<lparr>files := (files fs0)(py ''wo.xlsx'' \<mapsto> write_header a0 (py ''Sheet1'') wb0)\<rparr>)
   \<and> cells (write_header a0 (py ''Sheet1'') wb0) (py ''Sheet1'') B5 = Some (py ''CREATED'')"
proof -
  have a0_wp: "working_excel_path a0 = Some (py ''wo.xlsx'')" "py ''wo.xlsx'' \<noteq> []"
    by (simp_all add: a0_def py_def)
  have f: "files fs0 (py ''wo.xlsx'') = Some wb0" "locked fs0 = {}"
    by (simp_all add: fs0_def)
  have s: "target_sheet a0 wb0 = Some (py ''Sheet1'')"
    by (simp add: target_sheet_def a0_def wb0_def)
  have r: "update_excel_file a0 fs0 =
      (True, fs0\<lparr>files := (files fs0)(py ''wo.xlsx'' \<mapsto> write_header a0 (py ''Sheet1'') wb0)\<rparr>)"
    by (simp add: update_excel_file_def Let_def s f a0_wp)
  have t: "\<not> truthy (bill_status a0)" "working_excel_path a0 = Some (py ''wo.xlsx'')"
    by (simp_all add: a0_def)
  from update_excel_file_bill_status [OF r] obtain p wb ws wb' where
    h: "working_excel_path a0 = Some p" "files fs0 p = Some wb" "target_sheet a0 wb = Some ws"
       "files (fs0\<lparr>files := (files fs0)(py ''wo.xlsx'' \<mapsto> write_header a0 (py ''Sheet1'') wb0)\<rparr>) p
          = Some wb'"
       "\<not> truthy (bill_status a0) \<longrightarrow> cells wb' ws B5 = Some (py ''CREATED'')"
    by blast
  from h(1) t(2) have p: "p = py ''wo.xlsx''" by simp
  from h(2) p f(1) have wb: "wb = wb0" by simp
  from h(3) wb s have ws: "ws = py ''Sheet1''" by simp
  from h(4) p have wb': "wb' = write_header a0 (py ''Sheet1'') wb0" by simp
  from h(5) t(1) ws wb' r show ?thesis by simp
qed

lemma py_in_login: "py_in (py ''login'') (ascii_lower (py ''https://host/login/login.jsp''))"
  by (simp add: py_def ascii_lower_def)

lemma verify_stuck: "\<not> verify_attempt login_stuck"
  by (simp add: verify_attempt_def login_stuck_def py_in_login success_indicators_def)
     (simp add: py_def)

lemma verify_login_stuck: "\<not> verify_login_success (\<lambda>j. login_stuck)"
  by (simp add: verify_login_success_def verify_stuck)

lemma login_attempts_stuck: "login_attempts u (\<lambda>k. try_stuck) 0 3 = (None, False)"
  by (simp add: numeral_3_eq_3 try_stuck_def verify_login_stuck)

lemma perform_login_stuck: "perform_login u lp_stuck = (None, False)"
proof -
  have "\<exists>k<3. form_present lp_stuck k" by (rule exI [of _ 0]) (simp add: lp_stuck_def)
  moreover have "tries lp_stuck = (\<lambda>k. try_stuck)" "login_page_loads lp_stuck"
    by (simp_all add: lp_stuck_def)
  ultimately show ?thesis
    by (simp add: perform_login_def login_attempts_stuck)
qed

lemma canonical_distinct: "distinct canonical"
  by (simp add: canonical_def add_services_def route_to_comp_def create_bill_def
      put_prices_def py_def)

lemma step_neq:
  "route_to_comp \<noteq> add_services" "create_bill \<noteq> add_services" "put_prices \<noteq> add_services"
  "create_bill \<noteq> route_to_comp" "put_prices \<noteq> route_to_comp" "put_prices \<noteq> create_bill"
  using canonical_distinct by (auto simp: canonical_def)

lemma start_idx_route: "start_idx route_to_comp = 1"
  by (simp add: start_idx_def canonical_def step_neq)

lemma ordered_params0: "ordered params0 = [route_to_comp]"
  by (simp add: ordered_def params0_def start_idx_route canonical_def step_neq)

lemma strip_1001: "py_strip (py ''1001'') = py ''1001''"
  by (simp add: py_strip_def py_def is_space_def)

lemma parse_se_ok:
  "parse_sheet (sheet_read se_ok) ((new_automation params0)\<lparr>current_sheet := Some (py ''Sheet1'')\<rparr>) = a1"
  by (simp add: se_ok_def read_header_def strip_1001 a1_def)

lemma wo_a1: "wo_number a1 = Some (py ''1001'')"
  by (simp add: a1_def)

lemma py_1001_ne: "py ''1001'' \<noteq> []"
  by (simp add: py_def)

lemma route_ok_runs: "route_wo_to_comp route_ok = None"
  by (simp add: route_wo_to_comp_def route_ok_def)

lemma run_steps_se_ok:
  "run_steps fuel se_ok 0 [route_to_comp] a fs = Some (None, a, fs, [Stage route_to_comp, Browser RouteToComp])"
  by (simp add: run_step_def step_neq se_ok_def route_ok_runs)

lemma process_sheet_se_ok:
  "process_sheet fuel params0 True se_ok idx n (py ''Sheet1'') (new_automation params0) fs =
     Some (None, a1, snd (update_excel_file a1 fs),
       [Status (ProcessingSheet idx n (py ''Sheet1'')), SearchWorkOrder (Some (py ''1001'')),
        Stage route_to_comp, Browser RouteToComp, Checkpoint a1 (fst (update_excel_file a1 fs)),
        SheetProcessed (py ''Sheet1'')])"
proof -
  have s: "search_ok se_ok" by (simp add: se_ok_def)
  show ?thesis
    unfolding process_sheet_def Let_def parse_se_ok ordered_params0 run_steps_se_ok
    by (simp add: wo_a1 py_1001_ne s split: prod.split)
qed

lemma run_stuck:
  "run_automation fuel params0 env_stuck fs =
     Some (snd (update_excel_file a1 fs),
       [Status Initializing,
        Status (ProcessingSheet 1 1 (py ''Sheet1'')), SearchWorkOrder (Some (py ''1001'')),
        Stage route_to_comp, Browser RouteToComp, Checkpoint a1 (fst (update_excel_file a1 fs)),
        SheetProcessed (py ''Sheet1''), Status AutomationComplete, CloseBrowser, EnableControls])"
proof -
  have e: "truthy (excel_path params0)" by (simp add: params0_def py_def)
  have f: "stop_early env_stuck = False" "browser_starts env_stuck = True"
    "login_page env_stuck = lp_stuck" "sheet_names env_stuck = Some [py ''Sheet1'']"
    "sheet_envs env_stuck = (\<lambda>k. se_ok)"
    by (simp_all add: env_stuck_def)
  have n: "stop_before_sheet se_ok = False" by (simp add: se_ok_def)
  show ?thesis
    unfolding run_automation_def
    by (simp add: e f n perform_login_stuck process_sheet_se_ok release_def)
qed

lemma add_lines_sound:
  "AddSingleService n d b \<in> set (add_lines sp idx rows) \<Longrightarrow>
   \<exists>j<length rows. n = idx + j + 8 \<and> d = service_dict (rows ! j)
      \<and> \<not> quantity_skipped (rows ! j) \<and> \<not> item_skipped (rows ! j)
      \<and> b = add_single_service (line_pages sp (idx + j)) d"
proof (induction rows arbitrary: idx)
  case Nil
  then show ?case by simp
next
  case (Cons row rows)
  show ?case
  proof (cases "AddSingleService n d b \<in> set (add_lines sp (Suc idx) rows)")
    case True
    from Cons.IH [OF True] obtain j where
      "j < length rows" "n = Suc idx + j + 8" "d = service_dict (rows ! j)"
      "\<not> quantity_skipped (rows ! j)" "\<not> item_skipped (rows ! j)"
      "b = add_single_service (line_pages sp (Suc idx + j)) d"
      by blast
    then show ?thesis
      by (intro exI [of _ "Suc j"]) simp
  next
    case False
    with Cons.prems have
      "\<not> quantity_skipped row \<and> \<not> item_skipped row \<and> n = idx + 8 \<and> d = service_dict row
         \<and> b = add_single_service (line_pages sp idx) (service_dict row)"
      by (auto split: if_splits)
    then show ?thesis
      by (intro exI [of _ 0]) simp
  qed
qed

lemma add_lines_complete:
  assumes "\<forall>k. \<not> stop_before_line sp k" and "j < length rows"
  shows "(if quantity_skipped (rows ! j) then LogSkipZeroQuantity (idx + j + 8)
          else if item_skipped (rows ! j) then LogSkipEmptyItem (idx + j + 8)
          else AddSingleService (idx + j + 8) (service_dict (rows ! j))
                 (add_single_service (line_pages sp (idx + j)) (service_dict (rows ! j))))
         \<in> set (add_lines sp idx rows)"
proof -
  define ev where "ev = (\<lambda>k r.
    if quantity_skipped r then LogSkipZeroQuantity (k + 8)
    else if item_skipped r then LogSkipEmptyItem (k + 8)
    else AddSingleService (k + 8) (service_dict r)
           (add_single_service (line_pages sp k) (service_dict r)))"
  have hd: "ev idx row \<in> set (add_lines sp idx (row # rows'))" for idx row rows'
    using assms(1) by (simp add: ev_def)
  have tl: "set (add_lines sp (Suc idx) rows') \<subseteq> set (add_lines sp idx (row # rows'))"
    for idx row rows'
    using assms(1) by auto
  from assms(2) have "ev (idx + j) (rows ! j) \<in> set (add_lines sp idx rows)"
  proof (induction rows arbitrary: idx j)
    case Nil
    then show ?case by simp
  next
    case (Cons row rows)
    show ?case
    proof (cases j)
      case 0
      with hd [of idx row rows] show ?thesis by simp
    next
      case (Suc i)
      with Cons.prems have "i < length rows" by simp
      from Cons.IH [OF this, of "Suc idx"]
      have "ev (Suc idx + i) (rows ! i) \<in> set (add_lines sp (Suc idx) rows)" .
      with tl [of idx rows row] have "ev (Suc idx + i) (rows ! i) \<in> set (add_lines sp idx (row # rows))"
        by blast
      with Suc show ?thesis by simp
    qed
  qed
  then show ?thesis by (simp add: ev_def)
qed

lemma quantity_skipped_cases:
  "row Quantity = None \<or> row Quantity = Some (CNum 0) \<or> row Quantity = Some CNaN
     \<or> row Quantity = Some CNone \<Longrightarrow> quantity_skipped row"
  by (auto simp: quantity_skipped_def get_or_def)

lemma item_skipped_cases:
  "row ServiceItem = None \<or> row ServiceItem = Some CNone
     \<or> (\<exists>s. row ServiceItem = Some (CStr s) \<and> list_all is_space s) \<Longrightarrow> item_skipped row"
  by (auto simp: item_skipped_def get_or_def py_strip_empty_iff)

lemma stage_events:
  "tabs_ok sp \<Longrightarrow> services_data a = Some rows \<Longrightarrow> rows \<noteq> [] \<Longrightarrow>
   snd (add_services_to_wo sp a) = add_lines sp 0 rows @ [RouteToComp]"
  by (cases rows) (simp_all add: add_services_to_wo_def)

lemma stage_events_sound:
  "AddSingleService n d b \<in> set (snd (add_services_to_wo sp a)) \<Longrightarrow>
   \<exists>rows. services_data a = Some rows \<and> AddSingleService n d b \<in> set (add_lines sp 0 rows)"
  by (auto simp: add_services_to_wo_def split: if_splits option.splits list.splits)

lemma add_single_service_never_raises:
  "try_add_single_service lp d = Some e \<Longrightarrow> add_single_service lp d = False"
  by (simp add: add_single_service_def)

lemma add_lines_continues:
  "\<not> stop_before_line sp idx \<Longrightarrow> \<not> quantity_skipped row \<Longrightarrow> \<not> item_skipped row \<Longrightarrow>
   add_lines sp idx (row # rows) =
     AddSingleService (idx + 8) (service_dict row)
       (add_single_service (line_pages sp idx) (service_dict row)) # add_lines sp (Suc idx) rows"
  by simp

lemma stage_outcome:
  "fst (add_services_to_wo sp a) =
     (if \<not> tabs_ok sp then Some PlaywrightError
      else if services_data a = None \<or> services_data a = Some [] then None
      else route_wo_to_comp (route_after sp))"
  by (auto simp: add_services_to_wo_def split: option.splits list.splits)

lemma row_a_ok: "\<not> quantity_skipped row_a" "\<not> item_skipped row_a"
  by (simp_all add: quantity_skipped_def item_skipped_def get_or_def row_a_def py_def
      py_strip_def is_space_def)

lemma row_b_ok: "\<not> quantity_skipped row_b" "\<not> item_skipped row_b"
  by (simp_all add: quantity_skipped_def item_skipped_def get_or_def row_b_def py_def
      py_strip_def is_space_def)

lemma row_zero_skipped: "quantity_skipped row_zero"
  by (simp add: quantity_skipped_def get_or_def row_zero_def)

lemma dict_a: "service_dict row_a ServiceItem = CStr (py ''IS1'')" "service_dict row_a Quantity = CNum 1"
  by (simp_all add: service_dict_def get_or_def row_a_def)

lemma dict_b: "service_dict row_b ServiceItem = CStr (py ''IS2'')" "service_dict row_b Quantity = CNum 2"
  by (simp_all add: service_dict_def get_or_def row_b_def)

lemma item_ok: "py ''IS1'' \<noteq> []" "py_strip (py ''IS1'') \<noteq> []"
  "py ''IS2'' \<noteq> []" "py_strip (py ''IS2'') \<noteq> []"
  by (simp_all add: py_def py_strip_def is_space_def)

lemma try_not_found: "try_add_single_service line_not_found (service_dict row_a) = Some SearchExhausted"
  by (simp add: try_add_single_service_def dict_a item_ok line_not_found_def line_ok_def
      numeral_3_eq_3)

lemma try_ok_b: "try_add_single_service line_ok (service_dict row_b) = None"
  by (simp add: try_add_single_service_def dict_b item_ok line_ok_def numeral_3_eq_3
      eval_nat_numeral)

lemma try_ok_a: "try_add_single_service line_ok (service_dict row_a) = None"
  by (simp add: try_add_single_service_def dict_a item_ok line_ok_def numeral_3_eq_3
      eval_nat_numeral)

lemma stage_first_fails:
  "add_services_to_wo sp_first_fails a_two_lines =
     (None, [AddSingleService 8 (service_dict row_a) False,
             AddSingleService 9 (service_dict row_b) True, RouteToComp])"
proof -
  have l: "line_pages sp_first_fails 0 = line_not_found"
    "line_pages sp_first_fails (Suc 0) = line_ok"
    "stop_before_line sp_first_fails = (\<lambda>k. False)" "tabs_ok sp_first_fails"
    "route_after sp_first_fails = route_ok"
    by (simp_all add: sp_first_fails_def sp_ok_def)
  have d: "services_data a_two_lines = Some [row_a, row_b]"
    by (simp add: a_two_lines_def)
  show ?thesis
    by (simp add: add_services_to_wo_def l d row_a_ok row_b_ok add_single_service_def
        try_not_found try_ok_b route_ok_runs)
qed

text \<open>
  C3 (the code at the failing input). The login page never leaves the login URL, shows
  none of the markers and no error element: every verification fails, yet
  \<open>perform_login\<close> returns without an exception and without the status "Login
  successful", and the run goes on to process the sheet of the batch and ends with
  "Automation complete".
\<close>

theorem login_failure_not_fatal:
  "(\<forall>k j. \<not> verify_attempt (verification (tries lp_stuck k) j))
   \<and> (\<forall>k. \<not> verify_login_success (verification (tries lp_stuck k)))
   \<and> perform_login (url params0) lp_stuck = (None, False)
   \<and> run_automation 0 params0 env_stuck fs0 =
       Some (snd (update_excel_file a1 fs0),
         [Status Initializing,
          Status (ProcessingSheet 1 1 (py ''Sheet1'')), SearchWorkOrder (Some (py ''1001'')),
          Stage route_to_comp, Browser RouteToComp,
          Checkpoint a1 (fst (update_excel_file a1 fs0)),
          SheetProcessed (py ''Sheet1''), Status AutomationComplete, CloseBrowser,
          EnableControls])"
proof -
  have "verification (tries lp_stuck k) j = login_stuck" for k j
    by (simp add: lp_stuck_def try_stuck_def)
  then show ?thesis
    by (simp add: verify_stuck verify_login_success_def perform_login_stuck run_stuck)
qed

text \<open>
  C9 (the code at the failing input). The Pause button toggles the flag of the session
  state only. The object the worker runs on is created with \<open>paused = False\<close>, so
  \<open>check_pause\<close> returns at once, at the poll it was called at, whatever the session
  state says: a pause requested while the service lines are added halts nothing.
\<close>

theorem pause_request_never_halts_worker:
  "ss_paused (on_pause (ss\<lparr>ss_paused := False\<rparr>))
   \<and> \<not> paused (new_automation p)
   \<and> check_pause fuel (new_automation p) stop k = Some k
   \<and> add_services_to_wo sp_ok a_two_lines =
       (None, [AddSingleService 8 (service_dict row_a) True,
               AddSingleService 9 (service_dict row_b) True, RouteToComp])"
proof -
  have l: "line_pages sp_ok = (\<lambda>k. line_ok)" "stop_before_line sp_ok = (\<lambda>k. False)"
    "tabs_ok sp_ok" "route_after sp_ok = route_ok"
    by (simp_all add: sp_ok_def)
  have d: "services_data a_two_lines = Some [row_a, row_b]"
    by (simp add: a_two_lines_def)
  have "add_services_to_wo sp_ok a_two_lines =
       (None, [AddSingleService 8 (service_dict row_a) True,
               AddSingleService 9 (service_dict row_b) True, RouteToComp])"
    by (simp add: add_services_to_wo_def l d row_a_ok row_b_ok add_single_service_def
        try_ok_a try_ok_b route_ok_runs)
  then show ?thesis
    by (simp add: on_pause_def new_automation_def init_automation_def check_pause_def)
qed

text \<open>
  C5 (counterexample). The first of two eligible lines exhausts the three search attempts;
  \<open>add_single_service\<close> returns \<open>False\<close>, the stage goes on to the second line, routes
  the work order and returns normally.
\<close>

theorem failed_line_aborts_stage_counterexample:
  "try_add_single_service (line_pages sp_first_fails 0) (service_dict row_a) = Some SearchExhausted
   \<and> add_services_to_wo sp_first_fails a_two_lines =
       (None, [AddSingleService 8 (service_dict row_a) False,
               AddSingleService 9 (service_dict row_b) True, RouteToComp])"
proof -
  have "line_pages sp_first_fails 0 = line_not_found"
    by (simp add: sp_first_fails_def)
  then show ?thesis
    by (simp add: try_not_found stage_first_fails)
qed

text \<open>
  C5 (amended). Whatever the body of \<open>add_single_service\<close> raises for a line, the function
  returns \<open>False\<close>: no exception leaves it. \<open>add_services_to_wo\<close> does not look at the
  result: after an eligible line it goes on with the remaining lines, and the exception
  it ends with, if any, comes from the tab clicks or from the routing, never from a line.
\<close>

theorem failed_line_returns_false_and_stage_goes_on:
  "(try_add_single_service lp d = Some e \<longrightarrow> add_single_service lp d = False)
   \<and> (\<not> stop_before_line sp idx \<and> \<not> quantity_skipped row \<and> \<not> item_skipped row \<longrightarrow>
        add_lines sp idx (row # rows) =
          AddSingleService (idx + 8) (service_dict row)
            (add_single_service (line_pages sp idx) (service_dict row))
          # add_lines sp (Suc idx) rows)
   \<and> fst (add_services_to_wo sp a) =
        (if \<not> tabs_ok sp then Some PlaywrightError
         else if services_data a = None \<or> services_data a = Some [] then None
         else route_wo_to_comp (route_after sp))"
  using add_single_service_never_raises [of lp d e] add_lines_continues [of sp idx row rows]
    stage_outcome [of sp a]
  by blast

theorem failed_line_returns_false_and_stage_goes_on_witness:
  "try_add_single_service line_not_found (service_dict row_a) = Some SearchExhausted
   \<and> add_single_service line_not_found (service_dict row_a) = False
   \<and> \<not> stop_before_line sp_first_fails 0 \<and> \<not> quantity_skipped row_a \<and> \<not> item_skipped row_a
   \<and> add_lines sp_first_fails 0 [row_a, row_b] =
        AddSingleService 8 (service_dict row_a) False # add_lines sp_first_fails (Suc 0) [row_b]
   \<and> fst (add_services_to_wo sp_first_fails a_two_lines) = None"
proof -
  have l: "line_pages sp_first_fails 0 = line_not_found" "\<not> stop_before_line sp_first_fails 0"
    "tabs_ok sp_first_fails" "route_after sp_first_fails = route_ok"
    by (simp_all add: sp_first_fails_def sp_ok_def)
  have d: "services_data a_two_lines = Some [row_a, row_b]"
    by (simp add: a_two_lines_def)
  from failed_line_returns_false_and_stage_goes_on
    [of line_not_found "service_dict row_a" SearchExhausted sp_first_fails 0 row_a "[row_b]"
      a_two_lines]
    try_not_found l d row_a_ok route_ok_runs
  show ?thesis by simp
qed

lemma written_codes_append: "written_codes (xs @ ys) = written_codes xs @ written_codes ys"
  by (induction xs rule: written_codes.induct) simp_all

lemma process_row_written:
  "process_row m r P = (evs, P') \<Longrightarrow>
   P' = P \<union> set (written_codes evs) \<and> distinct (written_codes evs)
     \<and> set (written_codes evs) \<inter> P = {}"
  by (cases "write_result r")
     (auto simp: process_row_def split: option.splits if_splits)

lemma process_rows_written:
  "process_rows m rs P = (evs, P') \<Longrightarrow>
   P' = P \<union> set (written_codes evs) \<and> distinct (written_codes evs)
     \<and> set (written_codes evs) \<inter> P = {}"
proof (induction rs arbitrary: P evs P')
  case Nil
  then show ?case by simp
next
  case (Cons r rs)
  obtain e1 P1 where r1: "process_row m r P = (e1, P1)" by (cases "process_row m r P")
  obtain e2 P2 where r2: "process_rows m rs P1 = (e2, P2)" by (cases "process_rows m rs P1")
  from Cons.prems r1 r2 have e: "evs = e1 @ e2" "P' = P2" by simp_all
  from process_row_written [OF r1] have h1: "P1 = P \<union> set (written_codes e1)"
    "distinct (written_codes e1)" "set (written_codes e1) \<inter> P = {}" by simp_all
  from Cons.IH [OF r2] have h2: "P2 = P1 \<union> set (written_codes e2)"
    "distinct (written_codes e2)" "set (written_codes e2) \<inter> P1 = {}" by simp_all
  from h1 h2 e show ?case
    by (auto simp: written_codes_append)
qed

lemma price_pages_written:
  "price_pages fuel m pg n P = Some (r, evs, P') \<Longrightarrow>
   P' = P \<union> set (written_codes evs) \<and> distinct (written_codes evs)
     \<and> set (written_codes evs) \<inter> P = {}"
proof (induction fuel arbitrary: n P r evs P')
  case 0
  then show ?case by simp
next
  case (Suc fuel)
  show ?case
  proof (cases "page_rows (pg n)")
    case None
    with Suc.prems show ?thesis by simp
  next
    case (Some rows)
    show ?thesis
    proof (cases "rows = []")
      case True
      with Suc.prems Some show ?thesis by simp
    next
      case False
      obtain e1 P1 where r1: "process_rows m rows P = (e1, P1)"
        by (cases "process_rows m rows P")
      from process_rows_written [OF r1] have h1: "P1 = P \<union> set (written_codes e1)"
        "distinct (written_codes e1)" "set (written_codes e1) \<inter> P = {}" by simp_all
      show ?thesis
      proof (cases "next_enabled (pg n) \<and> next_click_ok (pg n)")
        case stop: False
        with Suc.prems Some False r1 have "evs = e1" "P' = P1"
          by (auto split: if_splits)
        with h1 show ?thesis by simp
      next
        case True
        with Suc.prems Some False r1 obtain e2 where
          r2: "price_pages fuel m pg (Suc n) P1 = Some (r, e2, P')" and e: "evs = e1 @ e2"
          by (auto split: option.splits)
        from Suc.IH [OF r2] have h2: "P' = P1 \<union> set (written_codes e2)"
          "distinct (written_codes e2)" "set (written_codes e2) \<inter> P1 = {}" by simp_all
        from h1 h2 e show ?thesis
          by (auto simp: written_codes_append)
      qed
    qed
  qed
qed

lemma enter_services_prices_written:
  "enter_services_prices fuel pp a = Some (r, evs, P) \<Longrightarrow>
   distinct (written_codes evs) \<and> set (written_codes evs) = P"
proof -
  assume h: "enter_services_prices fuel pp a = Some (r, evs, P)"
  show ?thesis
  proof (cases "services_tab_ok pp")
    case False
    with h show ?thesis by (simp add: enter_services_prices_def)
  next
    case True
    show ?thesis
    proof (cases "excel_services_map a")
      case (Inl e)
      with h True show ?thesis by (simp add: enter_services_prices_def)
    next
      case (Inr m)
      with h True have "price_pages fuel m (result_pages pp) 0 {} = Some (r, evs, P)"
        by (simp add: enter_services_prices_def)
      from price_pages_written [OF this] show ?thesis by simp
    qed
  qed
qed

lemma process_row_skips: "service_code row = Some code \<Longrightarrow> code \<in> P \<Longrightarrow> process_row m row P = ([], P)"
  by (simp add: process_row_def)

lemma process_row_adds:
  "service_code row = Some code \<Longrightarrow> code \<noteq> [] \<Longrightarrow> code \<notin> P \<Longrightarrow> write_result row \<noteq> Raised \<Longrightarrow>
   snd (process_row m row P) = insert code P \<and> written_codes (fst (process_row m row P)) = [code]"
  by (cases "write_result row") (auto simp: process_row_def split: option.splits)

lemma process_rows_mono: "P \<subseteq> snd (process_rows m rows P)"
  using process_rows_written [of m rows P] by (cases "process_rows m rows P") auto

lemma price_pages_mono: "price_pages fuel m pg n P = Some (r, evs, P') \<Longrightarrow> P \<subseteq> P'"
  using price_pages_written [of fuel m pg n P r evs P'] by auto

lemma process_row_event:
  "service_code row = Some code \<Longrightarrow> code \<noteq> [] \<Longrightarrow> code \<notin> P \<Longrightarrow>
   fst (process_row m row P) =
     [case m (CStr code) of
        Some price \<Rightarrow> SetPrice code (input_id row) price (write_result row)
      | None \<Rightarrow> SetZeroPrice code (input_id row) (write_result row)]"
  by (simp add: process_row_def split: option.splits)

lemma process_row_sound:
  "process_row m row P = (evs, P') \<Longrightarrow>
   (\<forall>c i p res. SetPrice c i p res \<in> set evs \<longrightarrow> m (CStr c) = Some p)
   \<and> (\<forall>c i res. SetZeroPrice c i res \<in> set evs \<longrightarrow> m (CStr c) = None)"
  by (auto simp: process_row_def split: option.splits if_splits)

lemma process_rows_sound:
  "process_rows m rows P = (evs, P') \<Longrightarrow>
   (\<forall>c i p res. SetPrice c i p res \<in> set evs \<longrightarrow> m (CStr c) = Some p)
   \<and> (\<forall>c i res. SetZeroPrice c i res \<in> set evs \<longrightarrow> m (CStr c) = None)"
proof (induction rows arbitrary: P evs P')
  case Nil
  then show ?case by simp
next
  case (Cons r rs)
  obtain e1 P1 where r1: "process_row m r P = (e1, P1)" by (cases "process_row m r P")
  obtain e2 P2 where r2: "process_rows m rs P1 = (e2, P2)" by (cases "process_rows m rs P1")
  from Cons.prems r1 r2 have e: "evs = e1 @ e2" by simp
  from process_row_sound [OF r1] Cons.IH [OF r2] show ?case
    unfolding e set_append Un_iff by blast
qed

lemma price_pages_sound:
  "price_pages fuel m pg n P = Some (r, evs, P') \<Longrightarrow>
   (\<forall>c i p res. SetPrice c i p res \<in> set evs \<longrightarrow> m (CStr c) = Some p)
   \<and> (\<forall>c i res. SetZeroPrice c i res \<in> set evs \<longrightarrow> m (CStr c) = None)"
proof (induction fuel arbitrary: n P r evs P')
  case 0
  then show ?case by simp
next
  case (Suc fuel)
  show ?case
  proof (cases "page_rows (pg n)")
    case None
    with Suc.prems show ?thesis by simp
  next
    case (Some rows)
    show ?thesis
    proof (cases "rows = []")
      case True
      with Suc.prems Some show ?thesis by simp
    next
      case False
      obtain e1 P1 where r1: "process_rows m rows P = (e1, P1)"
        by (cases "process_rows m rows P")
      note h1 = process_rows_sound [OF r1]
      show ?thesis
      proof (cases "next_enabled (pg n) \<and> next_click_ok (pg n)")
        case stop: False
        with Suc.prems Some False r1 have "evs = e1"
          by (auto split: if_splits)
        with h1 show ?thesis by simp
      next
        case True
        with Suc.prems Some False r1 obtain e2 where
          r2: "price_pages fuel m pg (Suc n) P1 = Some (r, e2, P')" and e: "evs = e1 @ e2"
          by (auto split: option.splits)
        from h1 Suc.IH [OF r2] show ?thesis
          unfolding e set_append Un_iff by blast
      qed
    qed
  qed
qed

lemma enter_services_prices_sound:
  "enter_services_prices fuel pp a = Some (r, evs, P) \<Longrightarrow> excel_services_map a = Inr m \<Longrightarrow>
   (\<forall>c i p res. SetPrice c i p res \<in> set evs \<longrightarrow> m (CStr c) = Some p)
   \<and> (\<forall>c i res. SetZeroPrice c i res \<in> set evs \<longrightarrow> m (CStr c) = None)"
proof -
  assume h: "enter_services_prices fuel pp a = Some (r, evs, P)" and m: "excel_services_map a = Inr m"
  show ?thesis
  proof (cases "services_tab_ok pp")
    case False
    with h show ?thesis by (simp add: enter_services_prices_def)
  next
    case True
    with h m have "price_pages fuel m (result_pages pp) 0 {} = Some (r, evs, P)"
      by (simp add: enter_services_prices_def)
    from price_pages_sound [OF this] show ?thesis .
  qed
qed

lemma is_codes: "py ''IS1'' \<noteq> []" "py ''IS2'' \<noteq> []" "py ''IS1'' \<noteq> py ''IS2''"
  "py ''IS2'' \<noteq> py ''IS1''"
  by (simp_all add: py_def)

lemma map_priced: "excel_services_map a_priced = Inr [CStr (py ''IS1'') \<mapsto> CNum 50]"
  by (simp add: excel_services_map_def a_priced_def row_priced_def is_codes)

lemma map_a0: "excel_services_map a0 = Inr Map.empty"
  by (simp add: excel_services_map_def a0_def)

lemma rows_page0:
  "process_rows [CStr (py ''IS1'') \<mapsto> CNum 50] [price_row_a] {} =
     ([SetPrice (py ''IS1'') (py ''a'') (CNum 50) (Returned True)], {py ''IS1''})"
  by (simp add: process_row_def price_row_a_def is_codes)

lemma rows_page1:
  "process_rows [CStr (py ''IS1'') \<mapsto> CNum 50] [price_row_b, price_row_c] {py ''IS1''} =
     ([SetZeroPrice (py ''IS2'') (py ''c'') (Returned True)], {py ''IS2'', py ''IS1''})"
  by (simp add: process_row_def price_row_b_def price_row_c_def is_codes)

lemma prices_two_pages:
  "enter_services_prices 2 pp_two_pages a_priced =
     Some (None, [SetPrice (py ''IS1'') (py ''a'') (CNum 50) (Returned True),
                  SetZeroPrice (py ''IS2'') (py ''c'') (Returned True)],
           {py ''IS2'', py ''IS1''})"
proof -
  have p: "services_tab_ok pp_two_pages"
    "result_pages pp_two_pages 0 =
       \<lparr>page_rows = Some [price_row_a], next_enabled = True, next_click_ok = True\<rparr>"
    "result_pages pp_two_pages (Suc 0) =
       \<lparr>page_rows = Some [price_row_b, price_row_c], next_enabled = False, next_click_ok = False\<rparr>"
    by (simp_all add: pp_two_pages_def)
  have "price_pages (Suc (Suc 0)) [CStr (py ''IS1'') \<mapsto> CNum 50] (result_pages pp_two_pages) 0 {} =
     Some (None, [SetPrice (py ''IS1'') (py ''a'') (CNum 50) (Returned True),
                  SetZeroPrice (py ''IS2'') (py ''c'') (Returned True)],
           {py ''IS2'', py ''IS1''})"
    by (simp add: p rows_page0 rows_page1 del: process_rows.simps)
  then show ?thesis
    by (simp add: enter_services_prices_def p map_priced numeral_2_eq_2)
qed

lemma prices_same_code_twice:
  "enter_services_prices 1 pp_same_code_twice a0 =
     Some (None, [SetZeroPrice (py ''IS2'') (py ''c'') (Returned True)], {py ''IS2''})"
proof -
  have p: "services_tab_ok pp_same_code_twice"
    "result_pages pp_same_code_twice 0 =
       \<lparr>page_rows = Some [price_row_c, price_row_c\<lparr>input_id := py ''d''\<rparr>],
        next_enabled = False, next_click_ok = False\<rparr>"
    by (simp_all add: pp_same_code_twice_def)
  have r: "process_rows Map.empty [price_row_c, price_row_c\<lparr>input_id := py ''d''\<rparr>] {} =
     ([SetZeroPrice (py ''IS2'') (py ''c'') (Returned True)], {py ''IS2''})"
    by (simp add: process_row_def price_row_c_def is_codes)
  have "price_pages (Suc 0) Map.empty (result_pages pp_same_code_twice) 0 {} =
     Some (None, [SetZeroPrice (py ''IS2'') (py ''c'') (Returned True)], {py ''IS2''})"
    by (simp add: p r del: process_rows.simps)
  then show ?thesis
    by (simp add: enter_services_prices_def p map_a0)
qed

text \<open>
  C8. In one invocation of \<open>enter_services_prices\<close> the item codes of the price scripts
  that returned are pairwise distinct, and they are exactly the processed set at the
  end. A row whose code is in the processed set is skipped; a row that is processed and
  whose script returns has its code added; and the set only grows, within a page and
  from page to page.
\<close>

theorem each_item_code_written_at_most_once:
  "(enter_services_prices fuel pp a = Some (r, evs, processed) \<longrightarrow>
      distinct (written_codes evs) \<and> set (written_codes evs) = processed)
   \<and> (service_code row = Some code \<and> code \<in> P \<longrightarrow> process_row m row P = ([], P))
   \<and> (service_code row = Some code \<and> code \<noteq> [] \<and> code \<notin> P \<and> write_result row \<noteq> Raised \<longrightarrow>
        snd (process_row m row P) = insert code P
        \<and> written_codes (fst (process_row m row P)) = [code])
   \<and> P \<subseteq> snd (process_rows m rows P)
   \<and> (price_pages fuel m pg n P = Some (r', evs', P') \<longrightarrow> P \<subseteq> P')"
  using enter_services_prices_written [of fuel pp a r evs processed]
    process_row_skips [of row code P m] process_row_adds [of row code P m]
    process_rows_mono [of P m rows] price_pages_mono [of fuel m pg n P r' evs' P']
  by blast

theorem each_item_code_written_at_most_once_witness:
  "enter_services_prices 2 pp_two_pages a_priced =
       Some (None, [SetPrice (py ''IS1'') (py ''a'') (CNum 50) (Returned True),
                    SetZeroPrice (py ''IS2'') (py ''c'') (Returned True)],
             {py ''IS2'', py ''IS1''})
   \<and> distinct (written_codes [SetPrice (py ''IS1'') (py ''a'') (CNum 50) (Returned True),
                    SetZeroPrice (py ''IS2'') (py ''c'') (Returned True)])
   \<and> service_code price_row_b = Some (py ''IS1'') \<and> py ''IS1'' \<in> {py ''IS1''}
   \<and> process_row [CStr (py ''IS1'') \<mapsto> CNum 50] price_row_b {py ''IS1''} = ([], {py ''IS1''})"
proof -
  note th = each_item_code_written_at_most_once
    [of 2 pp_two_pages a_priced None
      "[SetPrice (py ''IS1'') (py ''a'') (CNum 50) (Returned True),
        SetZeroPrice (py ''IS2'') (py ''c'') (Returned True)]"
      "{py ''IS2'', py ''IS1''}" price_row_b "py ''IS1''" "{py ''IS1''}"
      "[CStr (py ''IS1'') \<mapsto> CNum 50]"]
  have b: "service_code price_row_b = Some (py ''IS1'')"
    by (simp add: price_row_b_def)
  from th prices_two_pages have d: "distinct (written_codes
      [SetPrice (py ''IS1'') (py ''a'') (CNum 50) (Returned True),
       SetZeroPrice (py ''IS2'') (py ''c'') (Returned True)])"
    by blast
  from th b have s: "process_row [CStr (py ''IS1'') \<mapsto> CNum 50] price_row_b {py ''IS1''}
      = ([], {py ''IS1''})"
    by blast
  from prices_two_pages d b s show ?thesis by simp
qed

lemma stages_of_append: "stages_of (xs @ ys) = stages_of xs @ stages_of ys"
  by (induction xs rule: stages_of.induct) simp_all

lemma stages_of_Browser: "stages_of (map Browser evs) = []"
  by (induction evs) simp_all

lemma save_bill_info_no_stage: "stages_of (snd (snd (save_bill_info a fs))) = []"
proof (cases "truthy (bill_batch a)")
  case False
  then show ?thesis by (simp add: save_bill_info_def)
next
  case True
  then show ?thesis
    by (simp add: save_bill_info_def Let_def split: prod.split)
qed

lemma run_step_no_stage:
  assumes "run_step fuel se s a fs = Some (r, a', fs', evs)"
  shows "stages_of evs = []"
proof -
  consider (add) "s = add_services"
    | (route) "s \<noteq> add_services" "s = route_to_comp"
    | (bill) "s \<noteq> add_services" "s \<noteq> route_to_comp" "s = create_bill"
    | (prices) "s \<noteq> add_services" "s \<noteq> route_to_comp" "s \<noteq> create_bill" "s = put_prices"
    | (other) "s \<noteq> add_services" "s \<noteq> route_to_comp" "s \<noteq> create_bill" "s \<noteq> put_prices"
    by blast
  then show ?thesis
  proof cases
    case add
    obtain r0 e0 where "add_services_to_wo (services_page se) a = (r0, e0)"
      by (cases "add_services_to_wo (services_page se) a")
    with assms add have "evs = map Browser e0" by (simp add: run_step_def)
    then show ?thesis by (simp add: stages_of_Browser)
  next
    case route
    with assms have "evs = [Browser RouteToComp]" by (simp add: run_step_def)
    then show ?thesis by simp
  next
    case bill
    obtain r0 a0 e0 where c: "create_customer_bill (bill_page se) (bill_month se) (bill_year se) a
        = (r0, a0, e0)"
      by (cases "create_customer_bill (bill_page se) (bill_month se) (bill_year se) a")
    show ?thesis
    proof (cases r0)
      case (Some e)
      with assms bill c have "evs = map Browser e0" by (simp add: run_step_def)
      then show ?thesis by (simp add: stages_of_Browser)
    next
      case None
      obtain a1 fs1 e1 where sb: "save_bill_info a0 fs = (a1, fs1, e1)"
        by (cases "save_bill_info a0 fs")
      with assms bill c None have "evs = map Browser e0 @ e1" by (simp add: run_step_def)
      moreover from save_bill_info_no_stage [of a0 fs] sb have "stages_of e1 = []" by simp
      ultimately show ?thesis by (simp add: stages_of_append stages_of_Browser)
    qed
  next
    case prices
    from assms prices obtain r0 e0 where
      p: "process_customer_bill fuel (prices_page se) a = Some (r0, e0)"
      by (cases "process_customer_bill fuel (prices_page se) a") (auto simp: run_step_def)
    from assms prices p show ?thesis
      by (cases r0) (auto simp: run_step_def stages_of_append stages_of_Browser)
  next
    case other
    with assms have "evs = []" by (simp add: run_step_def)
    then show ?thesis by simp
  qed
qed

lemma run_steps_stages:
  "run_steps fuel se k steps a fs = Some (r, a', fs', evs) \<Longrightarrow>
   (\<exists>rest. steps = stages_of evs @ rest)
   \<and> (r = None \<and> (\<forall>j. \<not> stop_before_step se j) \<longrightarrow> stages_of evs = steps)"
proof (induction steps arbitrary: k a fs r a' fs' evs)
  case Nil
  then show ?case by simp
next
  case (Cons step steps)
  show ?case
  proof (cases "stop_before_step se k")
    case True
    with Cons.prems show ?thesis by auto
  next
    case False
    from Cons.prems False obtain r1 a1 fs1 e1 where
      s1: "run_step fuel se step a fs = Some (r1, a1, fs1, e1)"
      by (cases "run_step fuel se step a fs") auto
    note n1 = run_step_no_stage [OF s1]
    show ?thesis
    proof (cases r1)
      case (Some e)
      with Cons.prems False s1 have "evs = Stage step # e1" "r = Some e" by simp_all
      with n1 show ?thesis by simp
    next
      case None
      with Cons.prems False s1 obtain e2 where
        s2: "run_steps fuel se (Suc k) steps a1 fs1 = Some (r, a', fs', e2)"
        and e: "evs = Stage step # e1 @ e2"
        by (auto split: option.splits)
      from Cons.IH [OF s2] n1 e show ?thesis
        by (simp add: stages_of_append)
    qed
  qed
qed

lemma drop_index_of:
  "index_of x xs = Some i \<Longrightarrow> drop i xs = dropWhile (\<lambda>y. y \<noteq> x) xs"
proof (induction xs arbitrary: i)
  case Nil
  then show ?case by simp
next
  case (Cons a xs)
  show ?case
  proof (cases "x = a")
    case True
    with Cons.prems have "i = 0" by simp
    with True show ?thesis by simp
  next
    case False
    with Cons.prems obtain j where j: "index_of x xs = Some j" "i = Suc j"
      by (cases "index_of x xs") simp_all
    from Cons.IH [OF j(1)] j(2) False show ?thesis by simp
  qed
qed

lemma index_of_mem: "x \<in> set xs \<Longrightarrow> \<exists>i. index_of x xs = Some i"
proof (induction xs)
  case Nil
  then show ?case by simp
next
  case (Cons a xs)
  show ?case
  proof (cases "x = a")
    case True
    then show ?thesis by simp
  next
    case False
    with Cons.prems have "x \<in> set xs" by simp
    from Cons.IH [OF this] obtain i where "index_of x xs = Some i" ..
    with False show ?thesis by simp
  qed
qed

lemma ordered_drop_until:
  assumes "start_at p \<in> set canonical"
  shows "ordered p = filter (\<lambda>s. s \<in> set (selected_steps p))
           (dropWhile (\<lambda>s. s \<noteq> start_at p) canonical)"
proof -
  from index_of_mem [OF assms] obtain i where i: "index_of (start_at p) canonical = Some i" ..
  have si: "start_idx (start_at p) = i"
    unfolding start_idx_def i by simp
  show ?thesis
    unfolding ordered_def si drop_index_of [OF i] by (rule refl)
qed

lemma start_idx_create_bill: "start_idx create_bill = 2"
  by (simp add: start_idx_def canonical_def step_neq step_neq [symmetric])

lemma ordered_route_bill: "ordered params_route_bill = [route_to_comp, create_bill]"
  by (simp add: ordered_def params_route_bill_def params0_def start_idx_route canonical_def
      step_neq step_neq [symmetric])

lemma ordered_spec_example: "ordered params_spec_example = [create_bill, put_prices]"
  by (simp add: ordered_def params_spec_example_def params0_def start_idx_create_bill
      canonical_def step_neq step_neq [symmetric])

lemma run_steps_stop_after_first:
  "run_steps fuel se_stop_after_first 0 [route_to_comp, create_bill] a fs =
     Some (None, a, fs, [Stage route_to_comp, Browser RouteToComp, Status StopRequestedExitingSheet])"
  by (simp add: run_step_def step_neq se_stop_after_first_def se_ok_def route_ok_runs)






lemma truthy_cases: "truthy e \<longleftrightarrow> (case e of None \<Rightarrow> False | Some s \<Rightarrow> s \<noteq> [])"
  by (cases e) simp_all





lemma row_nan_item_passes: "\<not> quantity_skipped row_nan_item" "\<not> item_skipped row_nan_item"
  by (simp_all add: quantity_skipped_def item_skipped_def get_or_def row_nan_item_def)

lemma dict_nan_item:
  "service_dict row_nan_item ServiceItem = CNaN" "service_dict row_nan_item Quantity = CNum 2"
  by (simp_all add: service_dict_def get_or_def row_nan_item_def)

lemma try_nan_item: "try_add_single_service line_ok (service_dict row_nan_item) = None"
  by (simp add: try_add_single_service_def dict_nan_item line_ok_def numeral_3_eq_3
      eval_nat_numeral)

lemma stage_nan_item:
  "add_services_to_wo sp_ok a_nan_item =
     (None, [AddSingleService 8 (service_dict row_nan_item) True, RouteToComp])"
proof -
  have l: "line_pages sp_ok = (\<lambda>k. line_ok)" "stop_before_line sp_ok = (\<lambda>k. False)"
    "tabs_ok sp_ok" "route_after sp_ok = route_ok"
    by (simp_all add: sp_ok_def)
  have d: "services_data a_nan_item = Some [row_nan_item]"
    by (simp add: a_nan_item_def)
  show ?thesis
    by (simp add: add_services_to_wo_def l d row_nan_item_passes add_single_service_def
        try_nan_item route_ok_runs)
qed

text \<open>
  C4 (the code at the failing input). The sheet has one service row whose item cell is
  empty, which pandas delivers as NaN, and whose quantity is 2. NaN is truthy and
  \<open>str(nan).strip()\<close> is \<open>nan\<close>, so the item test does not skip the row:
  \<open>add_single_service\<close> is called for it. The quantity test beside it does skip a NaN.
\<close>

theorem empty_item_cell_is_submitted:
  "row_nan_item ServiceItem = Some CNaN \<and> row_nan_item Quantity = Some (CNum 2)
   \<and> services_data a_nan_item = Some [row_nan_item]
   \<and> \<not> item_skipped row_nan_item
   \<and> add_services_to_wo sp_ok a_nan_item =
       (None, [AddSingleService 8 (service_dict row_nan_item) True, RouteToComp])
   \<and> service_dict row_nan_item ServiceItem = CNaN
   \<and> row_nan_quantity Quantity = Some CNaN \<and> quantity_skipped row_nan_quantity"
proof -
  have "row_nan_item ServiceItem = Some CNaN" "row_nan_item Quantity = Some (CNum 2)"
    by (simp_all add: row_nan_item_def)
  moreover have "services_data a_nan_item = Some [row_nan_item]"
    by (simp add: a_nan_item_def)
  moreover have "row_nan_quantity Quantity = Some CNaN" "quantity_skipped row_nan_quantity"
    by (simp_all add: row_nan_quantity_def quantity_skipped_def get_or_def)
  ultimately show ?thesis
    using row_nan_item_passes(2) stage_nan_item dict_nan_item(1) by (intro conjI)
qed

lemma stage_two_lines:
  "add_services_to_wo sp_ok a_two_lines =
     (None, [AddSingleService 8 (service_dict row_a) True,
             AddSingleService 9 (service_dict row_b) True, RouteToComp])"
proof -
  have l: "line_pages sp_ok = (\<lambda>k. line_ok)" "stop_before_line sp_ok = (\<lambda>k. False)"
    "tabs_ok sp_ok" "route_after sp_ok = route_ok"
    by (simp_all add: sp_ok_def)
  have d: "services_data a_two_lines = Some [row_a, row_b]"
    by (simp add: a_two_lines_def)
  show ?thesis
    by (simp add: add_services_to_wo_def l d row_a_ok row_b_ok add_single_service_def
        try_ok_a try_ok_b route_ok_runs)
qed

lemma start_idx_add: "start_idx add_services = 0"
  by (simp add: start_idx_def canonical_def)

lemma ordered_add_only: "ordered params_add_only = [add_services]"
  by (simp add: ordered_def params_add_only_def start_idx_add canonical_def step_neq)

lemma ordered_add_route: "ordered params_add_route = [add_services, route_to_comp]"
  by (simp add: ordered_def params_add_route_def start_idx_add canonical_def step_neq)

lemma se_ok_pages: "services_page se_ok = sp_ok" "route_page se_ok = route_ok"
  "stop_before_step se_ok = (\<lambda>k. False)"
  by (simp_all add: se_ok_def)

lemma run_step_add:
  "run_step fuel se_ok add_services a_two_lines fs =
     Some (None, a_two_lines, fs,
       [Browser (AddSingleService 8 (service_dict row_a) True),
        Browser (AddSingleService 9 (service_dict row_b) True), Browser RouteToComp])"
  by (simp add: run_step_def se_ok_pages stage_two_lines)

lemma run_step_route:
  "run_step fuel se_ok route_to_comp a fs = Some (None, a, fs, [Browser RouteToComp])"
  by (simp add: run_step_def step_neq se_ok_pages route_ok_runs)

lemma run_steps_add_only:
  "run_steps fuel se_ok 0 [add_services] a_two_lines fs =
     Some (None, a_two_lines, fs,
       [Stage add_services, Browser (AddSingleService 8 (service_dict row_a) True),
        Browser (AddSingleService 9 (service_dict row_b) True), Browser RouteToComp])"
  by (simp add: se_ok_pages run_step_add)

lemma run_steps_add_route:
  "run_steps fuel se_ok 0 [add_services, route_to_comp] a_two_lines fs =
     Some (None, a_two_lines, fs,
       [Stage add_services, Browser (AddSingleService 8 (service_dict row_a) True),
        Browser (AddSingleService 9 (service_dict row_b) True), Browser RouteToComp,
        Stage route_to_comp, Browser RouteToComp])"
  by (simp add: se_ok_pages run_step_add run_step_route)

text \<open>
  C2 (the code at the failing input). The run starts at \<open>add_services\<close> with
  \<open>add_services\<close> alone selected, on a Job with two service lines; nothing fails and no
  stop is requested. The effective list is \<open>[add_services]\<close>, and the pipeline starts
  that one stage; but \<open>add_services_to_wo\<close> ends by calling \<open>route_wo_to_comp\<close> itself,
  so the work order is routed to COMP although \<open>route_to_comp\<close> is not selected. With
  \<open>route_to_comp\<close> selected too, the routing runs twice.
\<close>

theorem unselected_route_stage_is_executed:
  "selected_steps params_add_only = [add_services] \<and> start_at params_add_only = add_services
   \<and> route_to_comp \<notin> set (selected_steps params_add_only)
   \<and> ordered params_add_only = [add_services]
   \<and> run_steps 0 se_ok 0 (ordered params_add_only) a_two_lines fs0 =
       Some (None, a_two_lines, fs0,
         [Stage add_services, Browser (AddSingleService 8 (service_dict row_a) True),
          Browser (AddSingleService 9 (service_dict row_b) True), Browser RouteToComp])
   \<and> ordered params_add_route = [add_services, route_to_comp]
   \<and> run_steps 0 se_ok 0 (ordered params_add_route) a_two_lines fs0 =
       Some (None, a_two_lines, fs0,
         [Stage add_services, Browser (AddSingleService 8 (service_dict row_a) True),
          Browser (AddSingleService 9 (service_dict row_b) True), Browser RouteToComp,
          Stage route_to_comp, Browser RouteToComp])"
proof -
  have s: "selected_steps params_add_only = [add_services]"
    "start_at params_add_only = add_services"
    by (simp_all add: params_add_only_def)
  have n: "route_to_comp \<notin> set (selected_steps params_add_only)"
    by (simp add: s step_neq)
  have r1: "run_steps 0 se_ok 0 (ordered params_add_only) a_two_lines fs0 =
       Some (None, a_two_lines, fs0,
         [Stage add_services, Browser (AddSingleService 8 (service_dict row_a) True),
          Browser (AddSingleService 9 (service_dict row_b) True), Browser RouteToComp])"
    by (simp only: ordered_add_only run_steps_add_only)
  have r2: "run_steps 0 se_ok 0 (ordered params_add_route) a_two_lines fs0 =
       Some (None, a_two_lines, fs0,
         [Stage add_services, Browser (AddSingleService 8 (service_dict row_a) True),
          Browser (AddSingleService 9 (service_dict row_b) True), Browser RouteToComp,
          Stage route_to_comp, Browser RouteToComp])"
    by (simp only: ordered_add_route run_steps_add_route)
  show ?thesis
    by (intro conjI) (fact s(1), fact s(2), fact n, fact ordered_add_only, fact r1,
      fact ordered_add_route, fact r2)
qed

lemma prices_mapped:
  "enter_services_prices 1 pp_mapped a_priced =
     Some (None, [SetPrice (py ''IS1'') (py ''a'') (CNum 50) Raised], {})"
proof -
  have p: "services_tab_ok pp_mapped"
    "result_pages pp_mapped 0 =
       \<lparr>page_rows = Some [price_row_mapped], next_enabled = False, next_click_ok = False\<rparr>"
    by (simp_all add: pp_mapped_def)
  have r: "process_rows [CStr (py ''IS1'') \<mapsto> CNum 50] [price_row_mapped] {} =
     ([SetPrice (py ''IS1'') (py ''a'') (CNum 50) Raised], {})"
    by (simp add: process_row_def price_row_mapped_def is_codes)
  have "price_pages (Suc 0) [CStr (py ''IS1'') \<mapsto> CNum 50] (result_pages pp_mapped) 0 {} =
     Some (None, [SetPrice (py ''IS1'') (py ''a'') (CNum 50) Raised], {})"
    by (simp add: p r del: process_rows.simps)
  then show ?thesis
    by (simp add: enter_services_prices_def p map_priced)
qed

text \<open>
  C7 (the code at the failing input). The Job's Excel table prices the item IS1 at 50 and
  the results page lists IS1. The call that is to set the mapped price hands two
  arguments to \<open>page.evaluate\<close>, which takes one: it raises before any script runs, and
  the handler of the loop logs the error and goes on. No price is written, the code is
  not added to the processed set, and the stage still saves the bill and returns
  normally.
\<close>

theorem mapped_price_is_never_written:
  "excel_services_map a_priced = Inr [CStr (py ''IS1'') \<mapsto> CNum 50]
   \<and> page_rows (result_pages pp_mapped 0) = Some [price_row_mapped]
   \<and> service_code price_row_mapped = Some (py ''IS1'')
   \<and> write_result price_row_mapped = Raised
   \<and> enter_services_prices 1 pp_mapped a_priced =
       Some (None, [SetPrice (py ''IS1'') (py ''a'') (CNum 50) Raised], {})
   \<and> written_codes [SetPrice (py ''IS1'') (py ''a'') (CNum 50) Raised] = []
   \<and> process_customer_bill 1 pp_mapped a_priced =
       Some (None, [SetPrice (py ''IS1'') (py ''a'') (CNum 50) Raised, SaveBill])"
proof -
  have p: "page_rows (result_pages pp_mapped 0) = Some [price_row_mapped]"
    "save_clicked pp_mapped"
    by (simp_all add: pp_mapped_def)
  have r: "service_code price_row_mapped = Some (py ''IS1'')"
    "write_result price_row_mapped = Raised"
    by (simp_all add: price_row_mapped_def)
  have w: "written_codes [SetPrice (py ''IS1'') (py ''a'') (CNum 50) Raised] = []"
    by simp
  have c: "process_customer_bill 1 pp_mapped a_priced =
       Some (None, [SetPrice (py ''IS1'') (py ''a'') (CNum 50) Raised, SaveBill])"
    unfolding process_customer_bill_def prices_mapped
    by (simp add: save_bill_changes_def p)
  show ?thesis
    by (intro conjI) (fact map_priced, fact p(1), fact r(1), fact r(2), fact prices_mapped,
      fact w, fact c)
qed

lemma verify_done: "verify_login_success (\<lambda>j. login_done)"
  by (simp add: verify_login_success_def verify_attempt_def login_done_def)
     (simp add: py_def ascii_lower_def)

lemma perform_login_ok: "perform_login u lp_ok = (None, True)"
proof -
  have "\<exists>k<3. form_present lp_ok k" by (rule exI [of _ 0]) (simp add: lp_ok_def)
  moreover have "tries lp_ok = (\<lambda>k. try_done)" "login_page_loads lp_ok"
    by (simp_all add: lp_ok_def)
  moreover have "login_attempts u (\<lambda>k. try_done) 0 3 = (None, True)"
    by (simp add: numeral_3_eq_3 try_done_def verify_done)
  ultimately show ?thesis
    by (simp add: perform_login_def)
qed

lemma route_bad_raises: "route_wo_to_comp route_bad = Some (RouteClickFailed 1)"
  by (simp add: route_wo_to_comp_def route_bad_def)

lemma parse_se_route_bad:
  "parse_sheet (sheet_read se_route_bad)
     ((new_automation params0)\<lparr>current_sheet := Some (py ''Sheet1'')\<rparr>) = a1"
  by (simp add: se_route_bad_def se_ok_def read_header_def strip_1001 a1_def)

lemma run_steps_route_bad:
  "run_steps fuel se_route_bad 0 [route_to_comp] a fs =
     Some (Some (RouteClickFailed 1), a, fs, [Stage route_to_comp, Browser RouteToComp])"
  by (simp add: run_step_def step_neq se_route_bad_def se_ok_def route_bad_raises)

lemma process_sheet_route_bad:
  "process_sheet fuel params0 True se_route_bad idx n (py ''Sheet1'') (new_automation params0) fs =
     Some (Some (RouteClickFailed 1), a1, fs,
       [Status (ProcessingSheet idx n (py ''Sheet1'')), SearchWorkOrder (Some (py ''1001'')),
        Stage route_to_comp, Browser RouteToComp])"
proof -
  have s: "search_ok se_route_bad" by (simp add: se_route_bad_def se_ok_def)
  show ?thesis
    unfolding process_sheet_def Let_def parse_se_route_bad ordered_params0 run_steps_route_bad
    by (simp add: wo_a1 py_1001_ne s)
qed

lemma process_sheets_route_bad:
  "process_sheets fuel params0 True (\<lambda>k. if k = Suc 0 then se_route_bad else se_ok) (Suc 0) n
     (py ''Sheet1'' # rest) (new_automation params0) fs =
     Some (Some (RouteClickFailed 1), a1, fs,
       [Status (ProcessingSheet (Suc 0) n (py ''Sheet1'')), SearchWorkOrder (Some (py ''1001'')),
        Stage route_to_comp, Browser RouteToComp])"
proof -
  have n: "stop_before_sheet se_route_bad = False" by (simp add: se_route_bad_def se_ok_def)
  show ?thesis
    by (simp add: n process_sheet_route_bad)
qed

text \<open>
  C1 (the code at the failing input). The batch has two sheets, the login succeeds and
  the step \<open>route_to_comp\<close> is selected. On the first sheet the Route button cannot be
  clicked, so \<open>route_wo_to_comp\<close> raises. Nothing in the loop over the sheets catches
  the exception: it reaches the handler of \<open>run_automation\<close>, which sets the status
  "Automation error" and ends the run. \<open>update_excel_file\<close> is not called for the
  first sheet, the files are as they were, and the second sheet is never started.
\<close>

theorem stage_error_ends_the_run:
  "sheet_names env_route_fails = Some [py ''Sheet1'', py ''Sheet2'']
   \<and> route_wo_to_comp (route_page (sheet_envs env_route_fails 1)) = Some (RouteClickFailed 1)
   \<and> route_wo_to_comp (route_page (sheet_envs env_route_fails 2)) = None
   \<and> run_automation fuel params0 env_route_fails fs0 =
       Some (fs0,
         [Status Initializing, Status LoginSuccessful,
          Status (ProcessingSheet 1 2 (py ''Sheet1'')), SearchWorkOrder (Some (py ''1001'')),
          Stage route_to_comp, Browser RouteToComp,
          Status (AutomationError (RouteClickFailed 1)), CloseBrowser, EnableControls])"
proof -
  have e: "truthy (excel_path params0)" by (simp add: params0_def py_def)
  have f: "stop_early env_route_fails = False" "browser_starts env_route_fails = True"
    "login_page env_route_fails = lp_ok"
    "sheet_names env_route_fails = Some [py ''Sheet1'', py ''Sheet2'']"
    "sheet_envs env_route_fails = (\<lambda>k. if k = Suc 0 then se_route_bad else se_ok)"
    by (simp_all add: env_route_fails_def)
  have r1: "route_wo_to_comp (route_page (sheet_envs env_route_fails 1)) = Some (RouteClickFailed 1)"
    by (simp add: f se_route_bad_def route_bad_raises)
  have r2: "route_wo_to_comp (route_page (sheet_envs env_route_fails 2)) = None"
    by (simp add: f se_ok_def route_ok_runs)
  have run: "run_automation fuel params0 env_route_fails fs0 =
       Some (fs0,
         [Status Initializing, Status LoginSuccessful,
          Status (ProcessingSheet 1 2 (py ''Sheet1'')), SearchWorkOrder (Some (py ''1001'')),
          Stage route_to_comp, Browser RouteToComp,
          Status (AutomationError (RouteClickFailed 1)), CloseBrowser, EnableControls])"
    unfolding run_automation_def
    by (simp add: e f perform_login_ok process_sheets_route_bad release_def
        del: process_sheets.simps)
  show ?thesis
    by (intro conjI) (fact f(4), fact r1, fact r2, fact run)
qed

end
